theory Spec2Isabelle
  imports Complex_Main "HOL-Library.AList"
begin

section \<open>JavaScript numbers\<close>

text \<open>
  A value of the source's type \<open>number\<close> is a finite real, one of the two infinities, or
  NaN. Arithmetic follows IEEE 754 in everything except rounding, overflow and the sign of
  zero: a finite result is the exact real result, and a division by zero gives an infinity
  (of the sign of the dividend) or NaN, as it does in the source, instead of raising.
  Market data and the arguments a caller passes in (prices, amounts, configuration values)
  are finite numbers and have type \<open>real\<close>; everything the code computes is a \<open>jsnum\<close>.

  So three things that happen to the doubles of the code do not happen here. A result
  beyond about \<open>1.8 * 10^308\<close> is an infinity in the code and a finite number here. A sum
  whose small term is below the precision of the large one equals the large term in the
  code and differs from it here. A quotient or a square root is rounded in the code: the
  mean of twenty equal prices is that price here, and in the code when the sum of the
  twenty is exact, as it is for the price 100. The properties below are stated with this
  in view: a bound on the size of the inputs is a hypothesis where the code would
  overflow without it, an order that rounding can turn into an equality is stated with
  \<open>\<le>\<close>, and a property of one input uses numbers that the code computes exactly.
\<close>

datatype jsnum = Fin real | PInf | NInf | NaN

instantiation jsnum :: "{plus, minus, uminus, times, inverse, abs, ord}"
begin

fun uminus_jsnum :: "jsnum \<Rightarrow> jsnum" where
  "uminus_jsnum (Fin a) = Fin (- a)"
| "uminus_jsnum PInf = NInf"
| "uminus_jsnum NInf = PInf"
| "uminus_jsnum NaN = NaN"

fun plus_jsnum :: "jsnum \<Rightarrow> jsnum \<Rightarrow> jsnum" where
  "plus_jsnum (Fin a) (Fin b) = Fin (a + b)"
| "plus_jsnum NaN _ = NaN"
| "plus_jsnum _ NaN = NaN"
| "plus_jsnum PInf NInf = NaN"
| "plus_jsnum NInf PInf = NaN"
| "plus_jsnum PInf _ = PInf"
| "plus_jsnum _ PInf = PInf"
| "plus_jsnum NInf _ = NInf"
| "plus_jsnum _ NInf = NInf"

definition minus_jsnum :: "jsnum \<Rightarrow> jsnum \<Rightarrow> jsnum" where
  "minus_jsnum x y = x + (- y)"

fun times_jsnum :: "jsnum \<Rightarrow> jsnum \<Rightarrow> jsnum" where
  "times_jsnum (Fin a) (Fin b) = Fin (a * b)"
| "times_jsnum NaN _ = NaN"
| "times_jsnum _ NaN = NaN"
| "times_jsnum PInf (Fin b) = (if b = 0 then NaN else if 0 < b then PInf else NInf)"
| "times_jsnum NInf (Fin b) = (if b = 0 then NaN else if 0 < b then NInf else PInf)"
| "times_jsnum (Fin a) PInf = (if a = 0 then NaN else if 0 < a then PInf else NInf)"
| "times_jsnum (Fin a) NInf = (if a = 0 then NaN else if 0 < a then NInf else PInf)"
| "times_jsnum PInf PInf = PInf"
| "times_jsnum NInf NInf = PInf"
| "times_jsnum PInf NInf = NInf"
| "times_jsnum NInf PInf = NInf"

fun divide_jsnum :: "jsnum \<Rightarrow> jsnum \<Rightarrow> jsnum" where
  "divide_jsnum (Fin a) (Fin b) =
     (if b = 0 then (if a = 0 then NaN else if 0 < a then PInf else NInf) else Fin (a / b))"
| "divide_jsnum NaN _ = NaN"
| "divide_jsnum _ NaN = NaN"
| "divide_jsnum (Fin a) _ = Fin 0"
| "divide_jsnum PInf (Fin b) = (if 0 \<le> b then PInf else NInf)"
| "divide_jsnum NInf (Fin b) = (if 0 \<le> b then NInf else PInf)"
| "divide_jsnum _ _ = NaN"

definition inverse_jsnum :: "jsnum \<Rightarrow> jsnum" where
  "inverse_jsnum x = (Fin 1) div x"

fun abs_jsnum :: "jsnum \<Rightarrow> jsnum" where
  "abs_jsnum (Fin a) = Fin \<bar>a\<bar>"
| "abs_jsnum NaN = NaN"
| "abs_jsnum _ = PInf"

fun less_jsnum :: "jsnum \<Rightarrow> jsnum \<Rightarrow> bool" where
  "less_jsnum (Fin a) (Fin b) = (a < b)"
| "less_jsnum NaN _ = False"
| "less_jsnum _ NaN = False"
| "less_jsnum _ NInf = False"
| "less_jsnum PInf _ = False"
| "less_jsnum _ _ = True"

definition less_eq_jsnum :: "jsnum \<Rightarrow> jsnum \<Rightarrow> bool" where
  "less_eq_jsnum x y = (x < y \<or> (x = y \<and> x \<noteq> NaN))"

instance ..

end

text \<open>\<open>a === b\<close> on numbers: NaN equals nothing, not even itself.\<close>

definition jeq :: "jsnum \<Rightarrow> jsnum \<Rightarrow> bool" where
  "jeq x y = (x = y \<and> x \<noteq> NaN)"

text \<open>Truthiness, as used by \<open>x || d\<close>: zero and NaN are falsy.\<close>

definition truthy :: "jsnum \<Rightarrow> bool" where
  "truthy x = (x \<noteq> Fin 0 \<and> x \<noteq> NaN)"

text \<open>\<open>Math.max\<close>, \<open>Math.min\<close> and \<open>Math.sqrt\<close>: NaN if an argument is NaN.\<close>

definition jmax :: "jsnum \<Rightarrow> jsnum \<Rightarrow> jsnum" where
  "jmax x y = (if x = NaN \<or> y = NaN then NaN else if x < y then y else x)"

definition jmin :: "jsnum \<Rightarrow> jsnum \<Rightarrow> jsnum" where
  "jmin x y = (if x = NaN \<or> y = NaN then NaN else if y < x then y else x)"

fun jsqrt :: "jsnum \<Rightarrow> jsnum" where
  "jsqrt (Fin a) = (if a < 0 then NaN else Fin (sqrt a))"
| "jsqrt PInf = PInf"
| "jsqrt _ = NaN"

text \<open>\<open>Math.max(...xs)\<close> and \<open>Math.min(...xs)\<close> over a spread array.\<close>

definition jmaxList :: "jsnum list \<Rightarrow> jsnum" where
  "jmaxList xs = foldl jmax NInf xs"

definition jminList :: "jsnum list \<Rightarrow> jsnum" where
  "jminList xs = foldl jmin PInf xs"

text \<open>\<open>xs.reduce((a, b) => a + b, 0)\<close>.\<close>

definition jsum :: "jsnum list \<Rightarrow> jsnum" where
  "jsum xs = foldl (+) (Fin 0) xs"

section \<open>Arrays\<close>

text \<open>
  An array of \<open>number | null\<close> is a list of options. \<open>readAt xs i\<close> is the read \<open>xs[i]\<close>:
  an index outside the array reads \<open>undefined\<close>, which is \<open>None\<close> like \<open>null\<close>
  (the code modelled here tests \<open>!== null\<close> only on reads inside the array).
  \<open>nth_opt\<close> is the same read on an array of objects.
\<close>

definition nth_opt :: "'a list \<Rightarrow> int \<Rightarrow> 'a option" where
  "nth_opt xs i = (if 0 \<le> i \<and> i < int (length xs) then Some (xs ! nat i) else None)"

definition readAt :: "'a option list \<Rightarrow> int \<Rightarrow> 'a option" where
  "readAt xs i = (case nth_opt xs i of None \<Rightarrow> None | Some v \<Rightarrow> v)"

text \<open>\<open>v || d\<close> for a nullable number \<open>v\<close>.\<close>

definition orElse :: "jsnum option \<Rightarrow> jsnum \<Rightarrow> jsnum" where
  "orElse v d = (case v of None \<Rightarrow> d | Some x \<Rightarrow> if truthy x then x else d)"

text \<open>\<open>xs.slice(a, b)\<close> for \<open>0 \<le> a\<close>.\<close>

definition slice :: "'a list \<Rightarrow> nat \<Rightarrow> nat \<Rightarrow> 'a list" where
  "slice xs a b = take (b - a) (drop a xs)"

text \<open>
  \<open>xs.slice(-n)\<close>: the last \<open>n\<close> elements, the whole array when it is shorter, and also
  the whole array for \<open>n = 0\<close>, where \<open>-n\<close> is the start index 0.
\<close>

definition lastN :: "nat \<Rightarrow> 'a list \<Rightarrow> 'a list" where
  "lastN n xs = (if n = 0 then xs else drop (length xs - n) xs)"

section \<open>Indicator library\<close>

record Candle =
  date :: nat
  "open" :: real
  high :: real
  low :: real
  close :: real
  volume :: real

definition closes_of :: "Candle list \<Rightarrow> jsnum list" where
  "closes_of candles = map (\<lambda>c. Fin (close c)) candles"

subsection \<open>calculateSMA\<close>

definition calculateSMA :: "jsnum list \<Rightarrow> nat \<Rightarrow> jsnum option list" where
  "calculateSMA values period =
     (if length values < period then replicate (length values) None
      else map (\<lambda>i. if i + 1 < period then None
                     else Some (jsum (slice values (i + 1 - period) (i + 1)) / Fin (real period)))
               [0..<length values])"

subsection \<open>calculateEMA\<close>

fun emaLoop :: "jsnum \<Rightarrow> jsnum \<Rightarrow> jsnum list \<Rightarrow> jsnum option list" where
  "emaLoop k ema [] = []"
| "emaLoop k ema (v # vs) =
     (let ema' = (v * k) + (ema * (Fin 1 - k)) in Some ema' # emaLoop k ema' vs)"

definition calculateEMA :: "jsnum list \<Rightarrow> nat \<Rightarrow> jsnum option list" where
  "calculateEMA values period =
     (if length values < period then replicate (length values) None
      else let k = Fin 2 / Fin (real period + 1);
               ema = jsum (take period values) / Fin (real period)
           in replicate (period - 1) None @ (if period = 0 then [] else [Some ema])
              @ emaLoop k ema (drop period values))"

subsection \<open>calculateRSI\<close>

text \<open>
  The loop carries the two Wilder averages. \<open>rsiAverages\<close> is the series of that state,
  one pair per index from \<open>period\<close> on; \<open>rsiOf\<close> is the value the code stores for a
  state, and \<open>calculateRSI\<close> the array it returns.
\<close>

definition gainOf :: "jsnum \<Rightarrow> jsnum" where
  "gainOf change = (if Fin 0 < change then change else Fin 0)"

definition lossOf :: "jsnum \<Rightarrow> jsnum" where
  "lossOf change = (if change < Fin 0 then - change else Fin 0)"

definition rsiOf :: "jsnum \<times> jsnum \<Rightarrow> jsnum" where
  "rsiOf st = (case st of (avgGain, avgLoss) \<Rightarrow>
     if jeq avgLoss (Fin 0) then Fin 100
     else let rs = avgGain / avgLoss in Fin 100 - (Fin 100 / (Fin 1 + rs)))"

fun rsiLoop :: "nat \<Rightarrow> jsnum \<times> jsnum \<Rightarrow> jsnum \<Rightarrow> jsnum list \<Rightarrow> (jsnum \<times> jsnum) option list" where
  "rsiLoop period st prev [] = []"
| "rsiLoop period st prev (v # vs) =
     (let change = v - prev;
          gain = gainOf change;
          loss = lossOf change;
          avgGain = ((fst st * Fin (real period - 1)) + gain) / Fin (real period);
          avgLoss = ((snd st * Fin (real period - 1)) + loss) / Fin (real period)
      in Some (avgGain, avgLoss) # rsiLoop period (avgGain, avgLoss) v vs)"

definition rsiAverages :: "jsnum list \<Rightarrow> nat \<Rightarrow> (jsnum \<times> jsnum) option list" where
  "rsiAverages values period =
     (if length values \<le> period then replicate (length values) None
      else let changes = map (\<lambda>i. values ! i - values ! (i - 1)) [1..<period + 1];
               gains = map gainOf changes;
               losses = map lossOf changes;
               avgGain = jsum gains / Fin (real period);
               avgLoss = jsum losses / Fin (real period)
           in replicate period None @ [Some (avgGain, avgLoss)]
              @ rsiLoop period (avgGain, avgLoss) (values ! period) (drop (period + 1) values))"

definition calculateRSI :: "jsnum list \<Rightarrow> nat \<Rightarrow> jsnum option list" where
  "calculateRSI values period = map (map_option rsiOf) (rsiAverages values period)"

subsection \<open>calculateMACD\<close>

record MACDResult =
  macd :: "jsnum option list"
  signal :: "jsnum option list"
  histogram :: "jsnum option list"

fun firstValidFrom :: "nat \<Rightarrow> 'a option list \<Rightarrow> int" where
  "firstValidFrom i [] = - 1"
| "firstValidFrom i (None # xs) = firstValidFrom (i + 1) xs"
| "firstValidFrom i (Some v # xs) = int i"

definition calculateMACD :: "jsnum list \<Rightarrow> nat \<Rightarrow> nat \<Rightarrow> nat \<Rightarrow> MACDResult" where
  "calculateMACD values fastPeriod slowPeriod signalPeriod =
     (let fastEMA = calculateEMA values fastPeriod;
          slowEMA = calculateEMA values slowPeriod;
          macdLine = map (\<lambda>i. case (fastEMA ! i, slowEMA ! i) of
                                  (Some f, Some s) \<Rightarrow> Some (f - s)
                                | _ \<Rightarrow> None) [0..<length values];
          validMacd = List.map_filter (\<lambda>m. m) macdLine;
          firstValidIndex = firstValidFrom 0 macdLine;
          signalLineValid = calculateEMA validMacd signalPeriod;
          signalLine = map (\<lambda>i. readAt signalLineValid (int i - firstValidIndex))
                           [0..<length values];
          hist = map (\<lambda>i. case (macdLine ! i, readAt signalLineValid (int i - firstValidIndex)) of
                              (Some m, Some s) \<Rightarrow> Some (m - s)
                            | _ \<Rightarrow> None) [0..<length values]
      in \<lparr>macd = macdLine, signal = signalLine, histogram = hist\<rparr>)"

subsection \<open>calculateBollingerBands\<close>

record BollingerResult =
  upper :: "jsnum option list"
  middle :: "jsnum option list"
  lower :: "jsnum option list"

text \<open>
  The standard deviation of the window ending at \<open>i\<close>, as the loop body computes it
  (\<open>sma[i]!\<close> is a number there; a null would count as 0 in the subtraction).
\<close>

definition windowMean :: "jsnum option list \<Rightarrow> nat \<Rightarrow> jsnum" where
  "windowMean sma i = (case sma ! i of Some m \<Rightarrow> m | None \<Rightarrow> Fin 0)"

definition windowStdDev :: "jsnum list \<Rightarrow> jsnum option list \<Rightarrow> nat \<Rightarrow> nat \<Rightarrow> jsnum" where
  "windowStdDev values sma period i =
     (let sl = slice values (i + 1 - period) (i + 1);
          mean = windowMean sma i;
          variance = foldl (\<lambda>sm val. sm + ((val - mean) * (val - mean))) (Fin 0) sl
                     / Fin (real period)
      in jsqrt variance)"

definition calculateBollingerBands :: "jsnum list \<Rightarrow> nat \<Rightarrow> jsnum \<Rightarrow> BollingerResult" where
  "calculateBollingerBands values period stdDevMultiplier =
     (let sma = calculateSMA values period
      in \<lparr>upper = map (\<lambda>i. if i + 1 < period then None
                            else Some (windowMean sma i
                                       + (windowStdDev values sma period i * stdDevMultiplier)))
                      [0..<length values],
          middle = sma,
          lower = map (\<lambda>i. if i + 1 < period then None
                            else Some (windowMean sma i
                                       - (windowStdDev values sma period i * stdDevMultiplier)))
                      [0..<length values]\<rparr>)"

subsection \<open>calculateATR\<close>

definition hi :: "Candle \<Rightarrow> jsnum" where "hi c = Fin (high c)"
definition lo :: "Candle \<Rightarrow> jsnum" where "lo c = Fin (low c)"
definition cl :: "Candle \<Rightarrow> jsnum" where "cl c = Fin (close c)"

definition trueRange :: "Candle \<Rightarrow> Candle \<Rightarrow> jsnum" where
  "trueRange prev c =
     jmax (jmax (hi c - lo c) \<bar>hi c - cl prev\<bar>) \<bar>lo c - cl prev\<bar>"

definition trValues :: "Candle list \<Rightarrow> jsnum list" where
  "trValues candles =
     (hi (candles ! 0) - lo (candles ! 0))
     # map (\<lambda>i. trueRange (candles ! (i - 1)) (candles ! i)) [1..<length candles]"

fun atrLoop :: "nat \<Rightarrow> jsnum \<Rightarrow> jsnum list \<Rightarrow> jsnum option list" where
  "atrLoop period atr [] = []"
| "atrLoop period atr (t # ts) =
     (let atr' = ((atr * Fin (real period - 1)) + t) / Fin (real period)
      in Some atr' # atrLoop period atr' ts)"

definition calculateATR :: "Candle list \<Rightarrow> nat \<Rightarrow> jsnum option list" where
  "calculateATR candles period =
     (if length candles \<le> period then replicate (length candles) None
      else let tr = trValues candles;
               atr = jsum (take period tr) / Fin (real period)
           in replicate (period - 1) None @ (if period = 0 then [] else [Some atr])
              @ atrLoop period atr (drop period tr))"

subsection \<open>calculateStochastic\<close>

text \<open>Called with its default periods 14 and 3 only; the window starts are not negative.\<close>

record StochasticResult =
  stochK :: "jsnum option list"
  stochD :: "jsnum option list"

definition calculateStochastic :: "Candle list \<Rightarrow> nat \<Rightarrow> nat \<Rightarrow> StochasticResult" where
  "calculateStochastic candles kPeriod dPeriod =
     (if length candles < kPeriod
      then \<lparr>stochK = replicate (length candles) None, stochD = replicate (length candles) None\<rparr>
      else
        let kValues = map (\<lambda>i. if i + 1 < kPeriod then None
                                else let sl = slice candles (i + 1 - kPeriod) (i + 1);
                                         lowestLow = jminList (map lo sl);
                                         highestHigh = jmaxList (map hi sl);
                                         c = cl (candles ! i)
                                     in if \<not> jeq highestHigh lowestLow
                                        then Some (((c - lowestLow) / (highestHigh - lowestLow)) * Fin 100)
                                        else Some (Fin 50))
                          [0..<length candles];
            dValues = map (\<lambda>i. if i + 2 < kPeriod + dPeriod then None
                                else let kSlice = List.map_filter (\<lambda>v. v)
                                                    (slice kValues (i + 1 - dPeriod) (i + 1))
                                     in if length kSlice = dPeriod
                                        then Some (jsum kSlice / Fin (real dPeriod))
                                        else None)
                          [0..<length candles]
        in \<lparr>stochK = kValues, stochD = dValues\<rparr>)"

subsection \<open>calculateCCI\<close>

definition calculateCCI :: "Candle list \<Rightarrow> nat \<Rightarrow> jsnum option list" where
  "calculateCCI candles period =
     (if length candles < period then replicate (length candles) None
      else
        let typicalPrices = map (\<lambda>c. ((hi c + lo c) + cl c) / Fin 3) candles;
            sma = calculateSMA typicalPrices period
        in map (\<lambda>i. if i + 1 < period then None
                     else let sl = slice typicalPrices (i + 1 - period) (i + 1);
                              mean = windowMean sma i;
                              meanDeviation = foldl (\<lambda>sm val. sm + \<bar>val - mean\<bar>) (Fin 0) sl
                                              / Fin (real period)
                          in if \<not> jeq meanDeviation (Fin 0)
                             then Some ((typicalPrices ! i - mean) / (Fin 0.015 * meanDeviation))
                             else None)
               [0..<length candles])"

subsection \<open>calculateADX\<close>

definition plusDMOf :: "Candle \<Rightarrow> Candle \<Rightarrow> jsnum" where
  "plusDMOf prev c =
     (let upMove = hi c - hi prev; downMove = lo prev - lo c
      in if downMove < upMove \<and> Fin 0 < upMove then upMove else Fin 0)"

definition minusDMOf :: "Candle \<Rightarrow> Candle \<Rightarrow> jsnum" where
  "minusDMOf prev c =
     (let upMove = hi c - hi prev; downMove = lo prev - lo c
      in if upMove < downMove \<and> Fin 0 < downMove then downMove else Fin 0)"

fun smoothLoop :: "nat \<Rightarrow> jsnum \<Rightarrow> jsnum list \<Rightarrow> jsnum list" where
  "smoothLoop period prev [] = []"
| "smoothLoop period prev (v # vs) =
     (let s = (prev - (prev / Fin (real period))) + v in s # smoothLoop period s vs)"

text \<open>The local function \<open>smooth\<close>, on an array longer than \<open>period\<close>.\<close>

definition smooth :: "nat \<Rightarrow> jsnum list \<Rightarrow> jsnum list" where
  "smooth period values =
     (let s0 = jsum (take (period + 1) values)
      in replicate period (Fin 0) @ [s0] @ smoothLoop period s0 (drop (period + 1) values))"

definition calculateADX :: "Candle list \<Rightarrow> nat \<Rightarrow> jsnum option list" where
  "calculateADX candles period =
     (if length candles \<le> period * 2 then replicate (length candles) None
      else
        let tr = trValues candles;
            plusDM = Fin 0 # map (\<lambda>i. plusDMOf (candles ! (i - 1)) (candles ! i)) [1..<length candles];
            minusDM = Fin 0 # map (\<lambda>i. minusDMOf (candles ! (i - 1)) (candles ! i)) [1..<length candles];
            trSmooth = smooth period tr;
            plusDMSmooth = smooth period plusDM;
            minusDMSmooth = smooth period minusDM;
            dxValues = map (\<lambda>i. let plusDI = (plusDMSmooth ! i / trSmooth ! i) * Fin 100;
                                     minusDI = (minusDMSmooth ! i / trSmooth ! i) * Fin 100;
                                     diSum = plusDI + minusDI
                                 in if \<not> jeq diSum (Fin 0)
                                    then (\<bar>plusDI - minusDI\<bar> / diSum) * Fin 100
                                    else Fin 0)
                           [period..<length candles]
        in map (\<lambda>i. if i < period * 2 then None
                     else let dxSlice = slice dxValues (i - period * 2) (i - period)
                          in if 0 < length dxSlice
                             then Some (jsum dxSlice / Fin (real (length dxSlice)))
                             else None)
               [0..<length candles])"

section \<open>Council decision synthesizer\<close>

text \<open>
  The votes and the decision carry the fields the aggregation reads and writes. The
  display texts (\<open>reason\<close>), the random \<open>id\<close>, the \<open>timestamp\<close> and the two lists that
  are always empty (\<open>conflicts\<close>, \<open>dominantSignals\<close>) are left out.
\<close>

datatype SignalAction = Buy | Sell | Hold | Wait | Skip

record ModuleVote =
  moduleName :: string
  score :: jsnum
  direction :: SignalAction
  confidence :: jsnum

record CouncilDecision =
  symbol :: string
  finalAction :: SignalAction
  overallScore :: jsnum
  decisionConfidence :: jsnum
  votes :: "ModuleVote list"

text \<open>\<open>xs[i]\<close> on an array of numbers, used as a number: \<open>undefined\<close> acts as NaN.\<close>

definition numAt :: "jsnum list \<Rightarrow> int \<Rightarrow> jsnum" where
  "numAt xs i = (case nth_opt xs i of None \<Rightarrow> NaN | Some v \<Rightarrow> v)"

text \<open>\<open>Math.max(-100, Math.min(100, s))\<close>.\<close>

definition clamp100 :: "jsnum \<Rightarrow> jsnum" where
  "clamp100 s = jmax (Fin (- 100)) (jmin (Fin 100) s)"

text \<open>\<open>s > t ? 'buy' : s < -t ? 'sell' : 'hold'\<close>.\<close>

definition directionOf :: "jsnum \<Rightarrow> real \<Rightarrow> SignalAction" where
  "directionOf s t = (if Fin t < s then Buy else if s < Fin (- t) then Sell else Hold)"

definition lastIndex :: "'a list \<Rightarrow> int" where
  "lastIndex xs = int (length xs) - 1"

definition getOrionVote :: "Candle list \<Rightarrow> ModuleVote" where
  "getOrionVote candles =
     (let closes = closes_of candles;
          last = lastIndex closes;
          m = calculateMACD closes 12 26 9;
          adx = calculateADX candles 14;
          currH = orElse (readAt (histogram m) last) (Fin 0);
          prevH = orElse (readAt (histogram m) (last - 1)) (Fin 0);
          adxVal = orElse (readAt adx last) (Fin 0);
          currMACD = orElse (readAt (macd m) last) (Fin 0);
          currSignal = orElse (readAt (signal m) last) (Fin 0);
          momentum = currH - prevH;
          score0 = (currH * Fin 8) + (momentum * Fin 15);
          score1 = (if currSignal < currMACD \<and> Fin 0 < momentum then score0 + Fin 20 else score0);
          score2 = (if currMACD < currSignal \<and> momentum < Fin 0 then score1 - Fin 20 else score1);
          score3 = clamp100 score2
      in \<lparr>moduleName = ''Orion'', score = score3, direction = directionOf score3 15,
          confidence = jmin (Fin 100) ((adxVal * Fin 2.5) + Fin 20)\<rparr>)"

definition getAtlasVote :: "Candle list \<Rightarrow> ModuleVote" where
  "getAtlasVote candles =
     (let closes = closes_of candles;
          last = lastIndex closes;
          s20 = orElse (readAt (calculateSMA closes 20) last) (Fin 0);
          s50 = orElse (readAt (calculateSMA closes 50) last) (Fin 0);
          s200 = orElse (readAt (calculateSMA closes 200) last) (Fin 0);
          price = numAt closes last;
          score0 = (if s50 < price \<and> s200 < s50 then Fin 70
                    else if price < s50 \<and> s50 < s200 then Fin (- 70)
                    else if s20 < price \<and> s50 < s20 then Fin 40
                    else if price < s20 \<and> s20 < s50 then Fin (- 40)
                    else Fin 0);
          score1 = (if Fin 0 < s200
                    then let dist = (price - s200) / s200
                         in if Fin 0.2 < dist then score0 - Fin 15
                            else if dist < Fin (- 0.2) then score0 + Fin 15
                            else score0
                    else score0)
      in \<lparr>moduleName = ''Atlas'', score = clamp100 score1, direction = directionOf score1 20,
          confidence = Fin 85\<rparr>)"

text \<open>The unclamped score of Aether: \<open>((mid - p) / (u - mid)) * 80\<close>, no test of the divisor.\<close>

definition aetherScore :: "Candle list \<Rightarrow> jsnum" where
  "aetherScore candles =
     (let closes = closes_of candles;
          last = lastIndex closes;
          bb = calculateBollingerBands closes 20 (Fin 2);
          u = orElse (readAt (upper bb) last) (Fin 0);
          l = orElse (readAt (lower bb) last) (Fin 0);
          mid = orElse (readAt (middle bb) last) (Fin 0);
          p = numAt closes last
      in ((mid - p) / (u - mid)) * Fin 80)"

definition getAetherVote :: "Candle list \<Rightarrow> ModuleVote" where
  "getAetherVote candles =
     (let sc = aetherScore candles
      in \<lparr>moduleName = ''Aether'', score = clamp100 sc, direction = directionOf sc 20,
          confidence = Fin 75\<rparr>)"

definition getHermesVote :: "Candle list \<Rightarrow> ModuleVote" where
  "getHermesVote candles =
     (let closes = closes_of candles;
          last = lastIndex closes;
          rsi = orElse (readAt (calculateRSI closes 14) last) (Fin 50);
          st = calculateStochastic candles 14 3;
          sk = orElse (readAt (stochK st) last) (Fin 50);
          sd = orElse (readAt (stochD st) last) (Fin 50);
          score0 = (Fin 50 - rsi) * Fin 2;
          score1 = (if rsi < Fin 30 \<and> sk < Fin 20 then score0 + Fin 30 else score0);
          score2 = (if Fin 70 < rsi \<and> Fin 80 < sk then score1 - Fin 30 else score1);
          score3 = clamp100 score2
      in \<lparr>moduleName = ''Hermes'', score = score3, direction = directionOf score3 15,
          confidence = Fin 70\<rparr>)"

definition getChronosVote :: "Candle list \<Rightarrow> ModuleVote" where
  "getChronosVote candles =
     (let last = lastIndex candles;
          cci = orElse (readAt (calculateCCI candles 20) last) (Fin 0);
          sc = (- cci) / Fin 1.5
      in \<lparr>moduleName = ''Chronos'', score = clamp100 sc, direction = directionOf sc 20,
          confidence = Fin 72\<rparr>)"

definition getPoseidonVote :: "Candle list \<Rightarrow> ModuleVote" where
  "getPoseidonVote candles =
     (let volumes = map (\<lambda>c. Fin (volume c)) candles;
          closes = closes_of candles;
          last = lastIndex volumes;
          avgVol = jsum (lastN 20 volumes) / Fin 20;
          currentVol = numAt volumes last;
          volRatio = currentVol / avgVol;
          priceChange = (numAt closes last - numAt closes (last - 1)) / numAt closes (last - 1);
          sc = (priceChange * volRatio) * Fin 1500
      in \<lparr>moduleName = ''Poseidon'', score = clamp100 sc, direction = directionOf sc 10,
          confidence = jmin (Fin 100) ((volRatio * Fin 40) + Fin 20)\<rparr>)"

definition countDirection :: "SignalAction \<Rightarrow> ModuleVote list \<Rightarrow> nat" where
  "countDirection d vs = length (filter (\<lambda>v. direction v = d) vs)"

definition averageScore :: "ModuleVote list \<Rightarrow> jsnum" where
  "averageScore vs = jsum (map score vs) / Fin (real (length vs))"

definition getArgusVote :: "ModuleVote list \<Rightarrow> ModuleVote" where
  "getArgusVote prevVotes =
     (let avgScore = averageScore prevVotes;
          consensus = countDirection (if Fin 0 < avgScore then Buy else Sell) prevVotes
      in \<lparr>moduleName = ''Argus'', score = avgScore, direction = directionOf avgScore 10,
          confidence = Fin (90 + real consensus)\<rparr>)"

definition createFallbackDecision :: "string \<Rightarrow> CouncilDecision" where
  "createFallbackDecision symb =
     \<lparr>symbol = symb, finalAction = Hold, overallScore = Fin 0, decisionConfidence = Fin 0,
      votes = []\<rparr>"

text \<open>The six module votes and the guardian's, in the order they are pushed.\<close>

definition councilVotes :: "Candle list \<Rightarrow> ModuleVote list" where
  "councilVotes candles =
     (let six = [getOrionVote candles, getAtlasVote candles, getAetherVote candles,
                 getHermesVote candles, getChronosVote candles, getPoseidonVote candles]
      in six @ [getArgusVote six])"

text \<open>\<open>calculateRSI(closes, 14)[last] || 50\<close>, the value the two triggers test.\<close>

definition triggerRSI :: "Candle list \<Rightarrow> jsnum" where
  "triggerRSI candles =
     (let closes = closes_of candles
      in orElse (readAt (calculateRSI closes 14) (lastIndex closes)) (Fin 50))"

definition generateCouncilDecision :: "Candle list \<Rightarrow> string \<Rightarrow> CouncilDecision" where
  "generateCouncilDecision candles symb =
     (if length candles < 50 then createFallbackDecision symb
      else
        let vs = councilVotes candles;
            avgScore = averageScore vs;
            buyVotes = countDirection Buy vs;
            sellVotes = countDirection Sell vs;
            rsi = triggerRSI candles;
            action = (if rsi < Fin 24 then Buy
                      else if Fin 78 < rsi then Sell
                      else if 4 \<le> buyVotes then Buy
                      else if 4 \<le> sellVotes then Sell
                      else Hold);
            conf0 = (\<bar>avgScore\<bar> * Fin 0.5) + Fin (real (max buyVotes sellVotes) * 10);
            conf1 = (if 4 \<le> buyVotes \<or> 4 \<le> sellVotes then jmax (Fin 65) conf0 else conf0);
            conf2 = (if 6 \<le> buyVotes \<or> 6 \<le> sellVotes then jmax (Fin 85) conf1 else conf1)
        in \<lparr>symbol = symb, finalAction = action, overallScore = avgScore,
            decisionConfidence = jmin (Fin 100) conf2, votes = vs\<rparr>)"

section \<open>Backtest engine\<close>

text \<open>
  A thrown exception is a value: \<open>runBacktest\<close> returns \<open>Inl TypeError\<close> where the source
  reads a property of \<open>undefined\<close>. Dates are numbers; the trade id \<open>trade-n\<close> is the number
  \<open>n\<close>; the reason texts are the kind of exit only.
\<close>

datatype js_error = TypeError

datatype BacktestStrategy =
  RsiMeanReversion | MacdCrossover | BollingerBreakout | GoldenCross | TrendFollowing
  | ArgusComposite

record BacktestConfig =
  strategy :: BacktestStrategy
  initialCapital :: real
  positionSize :: real
  cfgStopLoss :: real
  cfgTakeProfit :: real
  commission :: real

definition DEFAULT_CONFIG :: BacktestConfig where
  "DEFAULT_CONFIG =
     \<lparr>strategy = RsiMeanReversion, initialCapital = 10000, positionSize = 0.2,
      cfgStopLoss = 0.05, cfgTakeProfit = 0.15, commission = 0.001\<rparr>"

datatype ExitReason = SignalExit | StopLossExit | TakeProfitExit | EndOfBacktest

record BacktestTrade =
  tradeNo :: nat
  btEntryDate :: nat
  btEntryPrice :: jsnum
  btQuantity :: jsnum
  btExitDate :: "nat option"
  btExitPrice :: "jsnum option"
  btPnl :: "jsnum option"
  btPnlPercent :: "jsnum option"
  btExitReason :: "ExitReason option"

record Indicators =
  indRsi :: "jsnum option list"
  indMacd :: MACDResult
  indBollinger :: BollingerResult
  indSma20 :: "jsnum option list"
  indSma50 :: "jsnum option list"
  indSma200 :: "jsnum option list"
  indEma12 :: "jsnum option list"
  indEma26 :: "jsnum option list"

definition calculateIndicators :: "Candle list \<Rightarrow> BacktestStrategy \<Rightarrow> Indicators" where
  "calculateIndicators candles strat =
     (let prices = closes_of candles
      in \<lparr>indRsi = calculateRSI prices 14,
          indMacd = calculateMACD prices 12 26 9,
          indBollinger = calculateBollingerBands prices 20 (Fin 2),
          indSma20 = calculateSMA prices 20,
          indSma50 = calculateSMA prices 50,
          indSma200 = calculateSMA prices 200,
          indEma12 = calculateEMA prices 12,
          indEma26 = calculateEMA prices 26\<rparr>)"

text \<open>
  \<open>indicators\<close> has type \<open>any\<close> in the source, so a property is looked up by its name at
  run time. \<open>macdProp m name\<close> is the read \<open>m[name]\<close> on the object \<open>calculateMACD\<close>
  returns: its properties are \<open>macd\<close>, \<open>signal\<close> and \<open>histogram\<close>, any other name reads
  \<open>undefined\<close>.
\<close>

definition macdProp :: "MACDResult \<Rightarrow> string \<Rightarrow> jsnum option list option" where
  "macdProp m name =
     (if name = ''macd'' then Some (macd m)
      else if name = ''signal'' then Some (signal m)
      else if name = ''histogram'' then Some (histogram m)
      else None)"

text \<open>The point score of the strategy \<open>argusComposite\<close> at one bar.\<close>

definition compositeScore ::
  "jsnum \<Rightarrow> jsnum option \<Rightarrow> jsnum option \<Rightarrow> jsnum option \<Rightarrow> jsnum option \<Rightarrow> jsnum option \<Rightarrow> int"
where
  "compositeScore price rsi macdHist sma20 lowerB upperB =
     (let s1 = (case rsi of None \<Rightarrow> 0
                | Some r \<Rightarrow> if r < Fin 30 then 2 else if r < Fin 40 then 1
                            else if Fin 70 < r then - 2 else if Fin 60 < r then - 1 else 0);
          s2 = (case macdHist of None \<Rightarrow> s1
                | Some h \<Rightarrow> if Fin 0 < h then s1 + 1 else s1 - 1);
          s3 = (case sma20 of None \<Rightarrow> s2
                | Some m \<Rightarrow> if m < price then s2 + 1 else s2 - 1);
          s4 = (case lowerB of None \<Rightarrow> s3 | Some l \<Rightarrow> if price < l then s3 + 2 else s3);
          s5 = (case upperB of None \<Rightarrow> s4 | Some u \<Rightarrow> if u < price then s4 - 2 else s4)
      in s5)"

text \<open>\<open>index\<close> is a bar of the main loop: \<open>50 \<le> index < candles.length\<close>.\<close>

definition generateSignal ::
  "nat \<Rightarrow> Candle list \<Rightarrow> Indicators \<Rightarrow> BacktestStrategy \<Rightarrow> js_error + SignalAction"
where
  "generateSignal index candles ind strat =
     (let price = cl (candles ! index)
      in case strat of
           RsiMeanReversion \<Rightarrow>
             (case (indRsi ind ! index, indRsi ind ! (index - 1)) of
                (Some rsi, Some prevRsi) \<Rightarrow>
                  if rsi < Fin 30 \<and> prevRsi \<le> rsi then Inr Buy
                  else if Fin 70 < rsi \<and> rsi \<le> prevRsi then Inr Sell
                  else Inr Hold
              | _ \<Rightarrow> Inr Hold)
         | MacdCrossover \<Rightarrow>
             (case macdProp (indMacd ind) ''macdLine'' of
                None \<Rightarrow> Inl TypeError
              | Some macdLineArr \<Rightarrow>
                 (case macdProp (indMacd ind) ''signalLine'' of
                    None \<Rightarrow> Inl TypeError
                  | Some signalLineArr \<Rightarrow>
                     (case (macdLineArr ! index, signalLineArr ! index,
                            macdLineArr ! (index - 1), signalLineArr ! (index - 1)) of
                        (Some macdLine, Some signalLine, Some prevMacd, Some prevSignal) \<Rightarrow>
                          if prevMacd \<le> prevSignal \<and> signalLine < macdLine then Inr Buy
                          else if prevSignal \<le> prevMacd \<and> macdLine < signalLine then Inr Sell
                          else Inr Hold
                      | _ \<Rightarrow> Inr Hold)))
         | BollingerBreakout \<Rightarrow>
             (case (upper (indBollinger ind) ! index, lower (indBollinger ind) ! index) of
                (Some u, Some l) \<Rightarrow>
                  if price < l then Inr Buy else if u < price then Inr Sell else Inr Hold
              | _ \<Rightarrow> Inr Hold)
         | GoldenCross \<Rightarrow>
             (case (indSma50 ind ! index, indSma200 ind ! index,
                    indSma50 ind ! (index - 1), indSma200 ind ! (index - 1)) of
                (Some sma50, Some sma200, Some prevSma50, Some prevSma200) \<Rightarrow>
                  if prevSma50 \<le> prevSma200 \<and> sma200 < sma50 then Inr Buy
                  else if prevSma200 \<le> prevSma50 \<and> sma50 < sma200 then Inr Sell
                  else Inr Hold
              | _ \<Rightarrow> Inr Hold)
         | TrendFollowing \<Rightarrow>
             (case (indSma20 ind ! index, indSma50 ind ! index, indRsi ind ! index) of
                (Some sma20, Some sma50, Some rsi) \<Rightarrow>
                  if sma20 < price \<and> sma50 < sma20 \<and> Fin 50 < rsi \<and> rsi < Fin 70 then Inr Buy
                  else if price < sma20 \<and> sma20 < sma50 \<and> rsi < Fin 50 then Inr Sell
                  else Inr Hold
              | _ \<Rightarrow> Inr Hold)
         | ArgusComposite \<Rightarrow>
             (let sc = compositeScore price (indRsi ind ! index)
                         (histogram (indMacd ind) ! index) (indSma20 ind ! index)
                         (lower (indBollinger ind) ! index) (upper (indBollinger ind) ! index)
              in if 3 \<le> sc then Inr Buy else if sc \<le> - 3 then Inr Sell else Inr Hold))"

record BtState =
  capital :: jsnum
  position :: "BacktestTrade option"
  trades :: "BacktestTrade list"
  equityCurve :: "(nat \<times> jsnum) list"
  signals :: "(nat \<times> SignalAction \<times> jsnum) list"
  peakEquity :: jsnum
  maxDrawdown :: jsnum

text \<open>One pass of the main loop, at bar \<open>i\<close>.\<close>

definition btStep ::
  "BacktestConfig \<Rightarrow> Candle list \<Rightarrow> Indicators \<Rightarrow> BtState \<Rightarrow> nat \<Rightarrow> js_error + BtState"
where
  "btStep cfg candles ind st i =
     (let candle = candles ! i;
          price = cl candle;
          currentEquity =
            (case position st of
               None \<Rightarrow> capital st
             | Some pos \<Rightarrow>
                 let positionValue = btQuantity pos * price
                 in (capital st + positionValue) - (btQuantity pos * btEntryPrice pos));
          st1 = st\<lparr>equityCurve := equityCurve st @ [(date candle, currentEquity)]\<rparr>;
          st2 = (if peakEquity st1 < currentEquity then st1\<lparr>peakEquity := currentEquity\<rparr> else st1);
          drawdown = (peakEquity st2 - currentEquity) / peakEquity st2;
          st3 = (if maxDrawdown st2 < drawdown then st2\<lparr>maxDrawdown := drawdown\<rparr> else st2)
      in case generateSignal i candles ind (strategy cfg) of
           Inl e \<Rightarrow> Inl e
         | Inr sg \<Rightarrow>
            (case position st3 of
               None \<Rightarrow>
                 if sg = Buy then
                   let positionCapital = capital st3 * Fin (positionSize cfg);
                       quantity = positionCapital / price;
                       comm = positionCapital * Fin (commission cfg);
                       pos = \<lparr>tradeNo = length (trades st3) + 1, btEntryDate = date candle,
                              btEntryPrice = price, btQuantity = quantity, btExitDate = None,
                              btExitPrice = None, btPnl = None, btPnlPercent = None,
                              btExitReason = None\<rparr>
                   in Inr (st3\<lparr>capital := capital st3 - comm, position := Some pos,
                                signals := signals st3 @ [(date candle, Buy, price)]\<rparr>)
                 else Inr st3
             | Some pos \<Rightarrow>
                 let pnlPercent = (price - btEntryPrice pos) / btEntryPrice pos;
                     reason = (if sg = Sell then Some SignalExit
                               else if pnlPercent \<le> - Fin (cfgStopLoss cfg) then Some StopLossExit
                               else if Fin (cfgTakeProfit cfg) \<le> pnlPercent then Some TakeProfitExit
                               else None)
                 in case reason of
                      None \<Rightarrow> Inr st3
                    | Some r \<Rightarrow>
                        let exitValue = btQuantity pos * price;
                            comm = exitValue * Fin (commission cfg);
                            pnl = ((price - btEntryPrice pos) * btQuantity pos) - comm;
                            completedTrade = pos\<lparr>btExitDate := Some (date candle),
                                                 btExitPrice := Some price, btPnl := Some pnl,
                                                 btPnlPercent := Some pnlPercent,
                                                 btExitReason := Some r\<rparr>
                        in Inr (st3\<lparr>capital := capital st3
                                                  + ((btQuantity pos * btEntryPrice pos) + pnl),
                                     trades := trades st3 @ [completedTrade],
                                     signals := signals st3 @ [(date candle, Sell, price)],
                                     position := None\<rparr>)))"

fun btLoop ::
  "BacktestConfig \<Rightarrow> Candle list \<Rightarrow> Indicators \<Rightarrow> BtState \<Rightarrow> nat list \<Rightarrow> js_error + BtState"
where
  "btLoop cfg candles ind st [] = Inr st"
| "btLoop cfg candles ind st (i # rest) =
     (case btStep cfg candles ind st i of
        Inl e \<Rightarrow> Inl e
      | Inr st' \<Rightarrow> btLoop cfg candles ind st' rest)"

text \<open>The block after the loop that closes a position still open at the last bar.\<close>

definition closeRemaining :: "Candle list \<Rightarrow> BtState \<Rightarrow> BtState" where
  "closeRemaining candles st =
     (case position st of
        None \<Rightarrow> st
      | Some pos \<Rightarrow>
          let lastCandle = candles ! (length candles - 1);
              lastPrice = cl lastCandle;
              pnl = (lastPrice - btEntryPrice pos) * btQuantity pos;
              pnlPercent = (lastPrice - btEntryPrice pos) / btEntryPrice pos
          in st\<lparr>capital := capital st + ((btQuantity pos * btEntryPrice pos) + pnl),
                trades := trades st @ [pos\<lparr>btExitDate := Some (date lastCandle),
                                            btExitPrice := Some lastPrice, btPnl := Some pnl,
                                            btPnlPercent := Some pnlPercent,
                                            btExitReason := Some EndOfBacktest\<rparr>]\<rparr>)"

record BacktestResult =
  resStrategy :: BacktestStrategy
  resSymbol :: string
  startDate :: "nat option"
  endDate :: "nat option"
  resInitialCapital :: jsnum
  finalCapital :: jsnum
  totalReturn :: jsnum
  totalReturnPercent :: jsnum
  resMaxDrawdown :: jsnum
  maxDrawdownPercent :: jsnum
  winRate :: jsnum
  totalTrades :: nat
  winningTrades :: nat
  losingTrades :: nat
  avgWin :: jsnum
  avgLoss :: jsnum
  profitFactor :: jsnum
  sharpeRatio :: jsnum
  resTrades :: "BacktestTrade list"
  resEquityCurve :: "(nat \<times> jsnum) list"
  resSignals :: "(nat \<times> SignalAction \<times> jsnum) list"

text \<open>In the empty result both dates are the current time, written \<open>None\<close>.\<close>

definition createEmptyResult :: "string \<Rightarrow> BacktestConfig \<Rightarrow> BacktestResult" where
  "createEmptyResult symb cfg =
     \<lparr>resStrategy = strategy cfg, resSymbol = symb, startDate = None, endDate = None,
      resInitialCapital = Fin (initialCapital cfg), finalCapital = Fin (initialCapital cfg),
      totalReturn = Fin 0, totalReturnPercent = Fin 0, resMaxDrawdown = Fin 0,
      maxDrawdownPercent = Fin 0, winRate = Fin 0, totalTrades = 0, winningTrades = 0,
      losingTrades = 0, avgWin = Fin 0, avgLoss = Fin 0, profitFactor = Fin 0,
      sharpeRatio = Fin 0, resTrades = [], resEquityCurve = [], resSignals = []\<rparr>"

definition pnlOr0 :: "BacktestTrade \<Rightarrow> jsnum" where
  "pnlOr0 t = orElse (btPnl t) (Fin 0)"

definition equityReturns :: "(nat \<times> jsnum) list \<Rightarrow> jsnum list" where
  "equityReturns curve =
     map (\<lambda>i. if 0 < i then (snd (curve ! i) - snd (curve ! (i - 1))) / snd (curve ! (i - 1))
               else Fin 0) [0..<length curve]"

text \<open>The configuration argument is \<open>cfg\<close>, the defaults already merged with the caller's values.\<close>

definition runBacktest :: "string \<Rightarrow> Candle list \<Rightarrow> BacktestConfig \<Rightarrow> js_error + BacktestResult" where
  "runBacktest symb candles cfg =
     (if length candles < 50 then Inr (createEmptyResult symb cfg)
      else
        let ind = calculateIndicators candles (strategy cfg);
            st0 = \<lparr>capital = Fin (initialCapital cfg), position = None, trades = [],
                   equityCurve = [], signals = [], peakEquity = Fin (initialCapital cfg),
                   maxDrawdown = Fin 0\<rparr>
        in case btLoop cfg candles ind st0 [50..<length candles] of
             Inl e \<Rightarrow> Inl e
           | Inr st1 \<Rightarrow>
               let st = closeRemaining candles st1;
                   winning = filter (\<lambda>t. Fin 0 < pnlOr0 t) (trades st);
                   losing = filter (\<lambda>t. pnlOr0 t \<le> Fin 0) (trades st);
                   avgW = (if 0 < length winning
                           then jsum (map pnlOr0 winning) / Fin (real (length winning))
                           else Fin 0);
                   avgL = (if 0 < length losing
                           then \<bar>jsum (map pnlOr0 losing) / Fin (real (length losing))\<bar>
                           else Fin 0);
                   grossProfit = jsum (map pnlOr0 winning);
                   grossLoss = \<bar>jsum (map pnlOr0 losing)\<bar>;
                   pf = (if Fin 0 < grossLoss then grossProfit / grossLoss
                         else if Fin 0 < grossProfit then PInf else Fin 0);
                   returns = equityReturns (equityCurve st);
                   avgReturn = jsum returns / Fin (real (length returns));
                   stdDev = jsqrt (foldl (\<lambda>sm r. sm + ((r - avgReturn) * (r - avgReturn)))
                                         (Fin 0) returns
                                   / Fin (real (length returns)));
                   sharpe = (if Fin 0 < stdDev then (avgReturn * Fin (sqrt 252)) / stdDev
                             else Fin 0)
               in case nth_opt candles 50 of
                    None \<Rightarrow> Inl TypeError
                  | Some c50 \<Rightarrow>
                      Inr \<lparr>resStrategy = strategy cfg, resSymbol = symb,
                           startDate = Some (date c50),
                           endDate = Some (date (candles ! (length candles - 1))),
                           resInitialCapital = Fin (initialCapital cfg),
                           finalCapital = capital st,
                           totalReturn = capital st - Fin (initialCapital cfg),
                           totalReturnPercent =
                             ((capital st - Fin (initialCapital cfg)) / Fin (initialCapital cfg))
                             * Fin 100,
                           resMaxDrawdown = maxDrawdown st * Fin (initialCapital cfg),
                           maxDrawdownPercent = maxDrawdown st * Fin 100,
                           winRate = (if 0 < length (trades st)
                                      then (Fin (real (length winning))
                                            / Fin (real (length (trades st)))) * Fin 100
                                      else Fin 0),
                           totalTrades = length (trades st),
                           winningTrades = length winning,
                           losingTrades = length losing,
                           avgWin = avgW, avgLoss = avgL, profitFactor = pf,
                           sharpeRatio = sharpe, resTrades = trades st,
                           resEquityCurve = equityCurve st, resSignals = signals st\<rparr>)"

section \<open>Risk level calculator\<close>

datatype Direction = Long | Short

datatype Volatility = LowVol | MediumVol | HighVol

record RiskLevels =
  entryPrice :: jsnum
  stopLoss :: jsnum
  takeProfit1 :: jsnum
  takeProfit2 :: jsnum
  takeProfit3 :: jsnum
  stopLossPercent :: jsnum
  takeProfitPercent :: jsnum
  riskRewardRatio :: jsnum
  atrValue :: jsnum
  volatilityLevel :: Volatility

text \<open>\<open>atrValues[atrValues.length - 1] || entryPrice * 0.02\<close>.\<close>

definition currentATROf :: "Candle list \<Rightarrow> real \<Rightarrow> jsnum" where
  "currentATROf candles entry =
     (let atrValues = calculateATR candles 14
      in orElse (readAt atrValues (lastIndex atrValues)) (Fin entry * Fin 0.02))"

text \<open>ATR as a percentage of the mean of the last 14 closes (the sum is always divided by 14).\<close>

definition atrPercentOf :: "Candle list \<Rightarrow> jsnum \<Rightarrow> jsnum" where
  "atrPercentOf candles currentATR =
     (let avgPrice = foldl (\<lambda>sm c. sm + cl c) (Fin 0) (lastN 14 candles) / Fin 14
      in (currentATR / avgPrice) * Fin 100)"

definition classifyVolatility :: "jsnum \<Rightarrow> Volatility" where
  "classifyVolatility atrPercent =
     (if atrPercent < Fin 2 then LowVol
      else if atrPercent < Fin 5 then MediumVol
      else HighVol)"

text \<open>The adjusted multipliers \<open>(adjustedSLMult, adjustedTPMult)\<close>.\<close>

definition adjustMultipliers :: "Volatility \<Rightarrow> real \<Rightarrow> real \<Rightarrow> jsnum \<times> jsnum" where
  "adjustMultipliers vol atrMultiplierSL atrMultiplierTP =
     (if vol = HighVol then (Fin atrMultiplierSL * Fin 0.8, Fin atrMultiplierTP * Fin 1.2)
      else if vol = LowVol then (Fin atrMultiplierSL * Fin 1.2, Fin atrMultiplierTP * Fin 0.9)
      else (Fin atrMultiplierSL, Fin atrMultiplierTP))"

definition calculateDynamicRiskLevels ::
  "Candle list \<Rightarrow> real \<Rightarrow> Direction \<Rightarrow> real \<Rightarrow> real \<Rightarrow> RiskLevels"
where
  "calculateDynamicRiskLevels candles entry dir atrMultiplierSL atrMultiplierTP =
     (let currentATR = currentATROf candles entry;
          vol = classifyVolatility (atrPercentOf candles currentATR);
          adjustedSLMult = fst (adjustMultipliers vol atrMultiplierSL atrMultiplierTP);
          adjustedTPMult = snd (adjustMultipliers vol atrMultiplierSL atrMultiplierTP);
          e = Fin entry;
          sl = (if dir = Long then e - (currentATR * adjustedSLMult)
                else e + (currentATR * adjustedSLMult));
          tp1 = (if dir = Long then e + ((currentATR * adjustedTPMult) * Fin 0.5)
                 else e - ((currentATR * adjustedTPMult) * Fin 0.5));
          tp2 = (if dir = Long then e + (currentATR * adjustedTPMult)
                 else e - (currentATR * adjustedTPMult));
          tp3 = (if dir = Long then e + ((currentATR * adjustedTPMult) * Fin 1.5)
                 else e - ((currentATR * adjustedTPMult) * Fin 1.5));
          slPercent = \<bar>(e - sl) / e\<bar> * Fin 100;
          tpPercent = \<bar>(tp2 - e) / e\<bar> * Fin 100
      in \<lparr>entryPrice = e, stopLoss = sl, takeProfit1 = tp1, takeProfit2 = tp2,
          takeProfit3 = tp3, stopLossPercent = slPercent, takeProfitPercent = tpPercent,
          riskRewardRatio = tpPercent / slPercent, atrValue = currentATR,
          volatilityLevel = vol\<rparr>)"




text \<open>
  \<open>a || d\<close> where \<open>a\<close> is a finite number or \<open>undefined\<close> (the result of \<open>find\<close> or of a
  read).
\<close>

definition realOrElse :: "real option \<Rightarrow> jsnum \<Rightarrow> jsnum" where
  "realOrElse a d = orElse (map_option Fin a) d"




section \<open>Paper trading\<close>

text \<open>
  The module variable \<open>portfolio\<close> and the copy kept in local storage are the two fields
  of the state; every operation takes the state and returns the new one. The price the
  awaited \<open>fetchBinanceTicker\<close> answers with is an argument (\<open>None\<close> when it answers
  null). The map of positions is a list of pairs in insertion order. Identifiers and
  timestamps of the records are left out.
\<close>

record Position =
  quantity :: jsnum
  avgCost :: jsnum
  posStopLoss :: "jsnum option"
  posTakeProfit :: "jsnum option"

datatype TradeType = BuyTrade | SellTrade

datatype TradeStatus = OpenTrade | ClosedTrade

record PaperTrade =
  ptSymbol :: string
  ptType :: TradeType
  ptQuantity :: jsnum
  ptEntryPrice :: jsnum
  ptExitPrice :: "jsnum option"
  pnl :: "jsnum option"
  pnlPercent :: "jsnum option"
  status :: TradeStatus
  ptReason :: string
  ptConfidence :: jsnum

record PaperPortfolio =
  balance :: jsnum
  initialBalance :: jsnum
  positions :: "(string \<times> Position) list"
  ptTrades :: "PaperTrade list"

record PaperState =
  portfolio :: "PaperPortfolio option"
  stored :: "PaperPortfolio option"

text \<open>
  \<open>savePaperPortfolio\<close> writes the portfolio to local storage as JSON text. The stored
  copy is kept here as the record itself, which is what reading the text back gives when
  every number of the portfolio is finite. JSON writes an infinity or NaN as null; a
  portfolio with such a number is stored here unchanged, and nothing below reads a stored
  copy of that kind (\<open>finitePortfolio\<close> is the condition).
\<close>

definition savePaperPortfolio :: "PaperState \<Rightarrow> PaperState" where
  "savePaperPortfolio st =
     (case portfolio st of None \<Rightarrow> st | Some p \<Rightarrow> st\<lparr>stored := Some p\<rparr>)"

definition initializePaperPortfolio :: "PaperState \<Rightarrow> real \<Rightarrow> PaperState" where
  "initializePaperPortfolio st initBalance =
     savePaperPortfolio
       (st\<lparr>portfolio := Some \<lparr>balance = Fin initBalance, initialBalance = Fin initBalance,
                               positions = [], ptTrades = []\<rparr>\<rparr>)"

definition paperBuy ::
  "PaperState \<Rightarrow> string \<Rightarrow> real \<Rightarrow> string \<Rightarrow> real \<Rightarrow> real option \<Rightarrow> PaperTrade option \<times> PaperState"
where
  "paperBuy st symb amountUSD reason conf ticker =
     (case portfolio st of
        None \<Rightarrow> (None, st)
      | Some p \<Rightarrow>
          if map_of (positions p) symb \<noteq> None then (None, st)
          else if balance p < Fin amountUSD then (None, st)
          else case ticker of
                 None \<Rightarrow> (None, st)
               | Some price \<Rightarrow>
                   let qty = Fin amountUSD / Fin price;
                       bal = balance p - Fin amountUSD;
                       newPos = (case map_of (positions p) symb of
                                   Some existing \<Rightarrow>
                                     let totalQty = quantity existing + qty;
                                         newAvgCost = ((quantity existing * avgCost existing)
                                                       + Fin amountUSD) / totalQty
                                     in \<lparr>quantity = totalQty, avgCost = newAvgCost,
                                         posStopLoss = None, posTakeProfit = None\<rparr>
                                 | None \<Rightarrow>
                                     \<lparr>quantity = qty, avgCost = Fin price,
                                      posStopLoss = None, posTakeProfit = None\<rparr>);
                       trade = \<lparr>ptSymbol = symb, ptType = BuyTrade, ptQuantity = qty,
                                ptEntryPrice = Fin price, ptExitPrice = None, pnl = None,
                                pnlPercent = None, status = OpenTrade, ptReason = reason,
                                ptConfidence = Fin conf\<rparr>;
                       p' = p\<lparr>balance := bal,
                              positions := AList.update symb newPos (positions p),
                              ptTrades := ptTrades p @ [trade]\<rparr>
                   in (Some trade, savePaperPortfolio (st\<lparr>portfolio := Some p'\<rparr>)))"

definition paperSell ::
  "PaperState \<Rightarrow> string \<Rightarrow> real option \<Rightarrow> string \<Rightarrow> real option \<Rightarrow> PaperTrade option \<times> PaperState"
where
  "paperSell st symb qtyArg reason ticker =
     (case portfolio st of
        None \<Rightarrow> (None, st)
      | Some p \<Rightarrow>
         (case map_of (positions p) symb of
            None \<Rightarrow> (None, st)
          | Some pos \<Rightarrow>
              let sellQty = realOrElse qtyArg (quantity pos)
              in if quantity pos < sellQty then (None, st)
                 else case ticker of
                        None \<Rightarrow> (None, st)
                      | Some price \<Rightarrow>
                          let proceeds = sellQty * Fin price;
                              cost = sellQty * avgCost pos;
                              pl = proceeds - cost;
                              plPercent = (pl / cost) * Fin 100;
                              bal = balance p + proceeds;
                              remainingQty = quantity pos - sellQty;
                              poss = (if Fin 0.000001 < remainingQty
                                      then AList.update symb (pos\<lparr>quantity := remainingQty\<rparr>)
                                             (positions p)
                                      else AList.delete symb (positions p));
                              trade = \<lparr>ptSymbol = symb, ptType = SellTrade,
                                       ptQuantity = sellQty, ptEntryPrice = avgCost pos,
                                       ptExitPrice = Some (Fin price), pnl = Some pl,
                                       pnlPercent = Some plPercent, status = ClosedTrade,
                                       ptReason = reason, ptConfidence = Fin 0\<rparr>;
                              p' = p\<lparr>balance := bal, positions := poss,
                                     ptTrades := ptTrades p @ [trade]\<rparr>
                          in (Some trade, savePaperPortfolio (st\<lparr>portfolio := Some p'\<rparr>))))"

text \<open>The three quantities \<open>repairPortfolioBalance\<close> computes.\<close>

definition closedTradesPnl :: "PaperPortfolio \<Rightarrow> jsnum" where
  "closedTradesPnl p =
     foldl (\<lambda>sm t. sm + orElse (pnl t) (Fin 0)) (Fin 0)
           (filter (\<lambda>t. status t = ClosedTrade) (ptTrades p))"

definition openPositionsCost :: "PaperPortfolio \<Rightarrow> jsnum" where
  "openPositionsCost p =
     foldl (\<lambda>sm pos. sm + (quantity pos * avgCost pos)) (Fin 0) (map snd (positions p))"

definition expectedBalance :: "PaperPortfolio \<Rightarrow> jsnum" where
  "expectedBalance p = (initialBalance p + closedTradesPnl p) - openPositionsCost p"

definition repairPortfolioBalance :: "PaperState \<Rightarrow> PaperState" where
  "repairPortfolioBalance st =
     (case portfolio st of
        None \<Rightarrow> st
      | Some p \<Rightarrow>
          if Fin 1 < \<bar>balance p - expectedBalance p\<bar>
          then savePaperPortfolio (st\<lparr>portfolio := Some (p\<lparr>balance := expectedBalance p\<rparr>)\<rparr>)
          else st)"

text \<open>
  \<open>loadPaperPortfolio\<close>, with the saved text already parsed (a failing parse, which
  returns null, is not modelled): a saved portfolio replaces the current one; then the
  repair runs and the current portfolio is returned. The braces of the source function do
  not balance (there is one closing brace too many after \<open>return portfolio\<close>), and it can
  be read in two ways: the repair and the return stand after the test of the saved text,
  as embedded here, or inside it. The two readings agree whenever something is stored;
  with nothing stored this definition repairs and returns the current portfolio, where the
  other reading returns null. The properties below use the function only with a stored
  portfolio.
\<close>

definition loadPaperPortfolio :: "PaperState \<Rightarrow> PaperPortfolio option \<times> PaperState" where
  "loadPaperPortfolio st =
     (let st1 = (case stored st of None \<Rightarrow> st | Some saved \<Rightarrow> st\<lparr>portfolio := Some saved\<rparr>);
          st2 = repairPortfolioBalance st1
      in (portfolio st2, st2))"

text \<open>A sequence of buy and sell calls, each with the price the ticker answers.\<close>

datatype PaperOp =
  BuyOp string real string real "real option"
  | SellOp string "real option" string "real option"

fun applyOp :: "PaperState \<Rightarrow> PaperOp \<Rightarrow> PaperTrade option \<times> PaperState" where
  "applyOp st (BuyOp symb amountUSD reason conf ticker) =
     paperBuy st symb amountUSD reason conf ticker"
| "applyOp st (SellOp symb qtyArg reason ticker) = paperSell st symb qtyArg reason ticker"

fun runOps :: "PaperState \<Rightarrow> PaperOp list \<Rightarrow> PaperState" where
  "runOps st [] = st"
| "runOps st (op # ops) = runOps (snd (applyOp st op)) ops"

section \<open>Sample inputs\<close>

text \<open>A bar whose four prices are all \<open>p\<close>.\<close>

definition flatCandle :: "real \<Rightarrow> Candle" where
  "flatCandle p = \<lparr>date = 0, open = p, high = p, low = p, close = p, volume = 1\<rparr>"

text \<open>The state before any portfolio exists.\<close>

definition emptyState :: PaperState where
  "emptyState = \<lparr>portfolio = None, stored = None\<rparr>"




section \<open>Reconciliation of the portfolio\<close>

text \<open>
  Notions for the balance invariant. A sequence of calls is clean when every buy is filled
  at a price other than 0 and no sell leaves a remainder in the interval (0, 0.000001],
  the one \<open>paperSell\<close> drops together with the position.
\<close>

fun opIsClean :: "PaperState \<Rightarrow> PaperOp \<Rightarrow> bool" where
  "opIsClean st (BuyOp symb amountUSD reason conf ticker) = (ticker \<noteq> Some 0)"
| "opIsClean st (SellOp symb qtyArg reason ticker) =
     (case portfolio st of
        None \<Rightarrow> True
      | Some p \<Rightarrow>
         (case map_of (positions p) symb of
            None \<Rightarrow> True
          | Some pos \<Rightarrow>
              let remainingQty = quantity pos - realOrElse qtyArg (quantity pos)
              in \<not> (Fin 0 < remainingQty \<and> \<not> Fin 0.000001 < remainingQty)))"

fun cleanRun :: "PaperState \<Rightarrow> PaperOp list \<Rightarrow> bool" where
  "cleanRun st [] = True"
| "cleanRun st (op # ops) = (opIsClean st op \<and> cleanRun (snd (applyOp st op)) ops)"

text \<open>
  A portfolio is reconciled when its numbers are finite, its keys are distinct and its
  balance is the expected balance. \<open>costOf\<close> is the cost basis of a position as a real.
\<close>

fun isFin :: "jsnum \<Rightarrow> bool" where
  "isFin (Fin a) = True"
| "isFin _ = False"

fun realPart :: "jsnum \<Rightarrow> real" where
  "realPart (Fin a) = a"
| "realPart _ = 0"

definition costOf :: "Position \<Rightarrow> real" where
  "costOf pos = realPart (quantity pos) * realPart (avgCost pos)"

definition finPos :: "Position \<Rightarrow> bool" where
  "finPos pos = (isFin (quantity pos) \<and> isFin (avgCost pos))"

definition reconciled :: "PaperPortfolio \<Rightarrow> bool" where
  "reconciled p =
     (distinct (map fst (positions p))
      \<and> list_all (\<lambda>kp. finPos (snd kp)) (positions p)
      \<and> isFin (balance p) \<and> isFin (initialBalance p) \<and> isFin (closedTradesPnl p)
      \<and> balance p = expectedBalance p)"

text \<open>
  The portfolios that the text in local storage can stand for: JSON has no infinity and no
  NaN, so every number of a portfolio read back from it is finite (or null, which is not
  modelled).
\<close>

definition finiteOpt :: "jsnum option \<Rightarrow> bool" where
  "finiteOpt v = (case v of None \<Rightarrow> True | Some x \<Rightarrow> isFin x)"

definition finiteTrade :: "PaperTrade \<Rightarrow> bool" where
  "finiteTrade t =
     (isFin (ptQuantity t) \<and> isFin (ptEntryPrice t) \<and> finiteOpt (ptExitPrice t)
      \<and> finiteOpt (pnl t) \<and> finiteOpt (pnlPercent t) \<and> isFin (ptConfidence t))"

definition finitePortfolio :: "PaperPortfolio \<Rightarrow> bool" where
  "finitePortfolio p =
     (isFin (balance p) \<and> isFin (initialBalance p)
      \<and> list_all (\<lambda>kp. finPos (snd kp) \<and> finiteOpt (posStopLoss (snd kp))
                        \<and> finiteOpt (posTakeProfit (snd kp))) (positions p)
      \<and> list_all finiteTrade (ptTrades p))"

section \<open>Verified properties\<close>

subsection \<open>Council decision validity\<close>

lemma length_councilVotes: "length (councilVotes candles) = 7"
  by (simp add: councilVotes_def Let_def)

lemma orElse_less:
  "orElse v (Fin d) < Fin t \<Longrightarrow> \<not> d < (t::real) \<Longrightarrow> \<exists>x. v = Some x \<and> x < Fin t"
  by (cases v) (auto simp: orElse_def split: if_splits)

lemma orElse_greater:
  "Fin t < orElse v (Fin d) \<Longrightarrow> \<not> t < (d::real) \<Longrightarrow> \<exists>x. v = Some x \<and> Fin t < x"
  by (cases v) (auto simp: orElse_def split: if_splits)

text \<open>
  Claim C1. With at least 50 candles the decision carries seven votes; its final action is
  buy only if the RSI(14) of the last bar is below 24 or at least four votes say buy, sell
  only if that RSI is above 78 (and not below 24) or at least four votes say sell, and
  hold in every other case. With fewer than 50 candles the decision is the fallback: hold,
  score 0, confidence 0, no votes.
\<close>

theorem council_decision_validity:
  "(50 \<le> length candles \<longrightarrow>
      (let d = generateCouncilDecision candles symb;
           r = readAt (calculateRSI (closes_of candles) 14) (lastIndex (closes_of candles));
           buyVotes = countDirection Buy (votes d);
           sellVotes = countDirection Sell (votes d)
       in length (votes d) = 7 \<and>
          (finalAction d = Buy \<longrightarrow> (\<exists>x. r = Some x \<and> x < Fin 24) \<or> 4 \<le> buyVotes) \<and>
          (finalAction d = Sell \<longrightarrow>
             (\<exists>x. r = Some x \<and> Fin 78 < x \<and> \<not> x < Fin 24) \<or> 4 \<le> sellVotes) \<and>
          (finalAction d \<noteq> Buy \<and> finalAction d \<noteq> Sell \<longrightarrow> finalAction d = Hold)))
   \<and> (length candles < 50 \<longrightarrow>
         generateCouncilDecision candles symb =
           \<lparr>symbol = symb, finalAction = Hold, overallScore = Fin 0,
            decisionConfidence = Fin 0, votes = []\<rparr>)"
proof (intro conjI impI)
  assume short: "length candles < 50"
  then show "generateCouncilDecision candles symb =
           \<lparr>symbol = symb, finalAction = Hold, overallScore = Fin 0,
            decisionConfidence = Fin 0, votes = []\<rparr>"
    by (simp add: generateCouncilDecision_def createFallbackDecision_def)
next
  assume long: "50 \<le> length candles"
  define r where "r = readAt (calculateRSI (closes_of candles) 14) (lastIndex (closes_of candles))"
  have rsi: "triggerRSI candles = orElse r (Fin 50)"
    by (simp add: triggerRSI_def r_def Let_def)
  have lo: "triggerRSI candles < Fin 24 \<Longrightarrow> \<exists>x. r = Some x \<and> x < Fin 24"
    unfolding rsi by (rule orElse_less [where d = 50]) simp_all
  have hi: "Fin 78 < triggerRSI candles \<Longrightarrow> \<exists>x. r = Some x \<and> Fin 78 < x"
    unfolding rsi by (rule orElse_greater [where d = 50]) simp_all
  have same: "\<not> triggerRSI candles < Fin 24 \<Longrightarrow> r = Some x \<Longrightarrow> Fin 78 < x \<Longrightarrow> \<not> x < Fin 24" for x
    by (cases x) (auto simp: rsi orElse_def truthy_def split: if_splits)
  show "let d = generateCouncilDecision candles symb;
           r = readAt (calculateRSI (closes_of candles) 14) (lastIndex (closes_of candles));
           buyVotes = countDirection Buy (votes d);
           sellVotes = countDirection Sell (votes d)
       in length (votes d) = 7 \<and>
          (finalAction d = Buy \<longrightarrow> (\<exists>x. r = Some x \<and> x < Fin 24) \<or> 4 \<le> buyVotes) \<and>
          (finalAction d = Sell \<longrightarrow>
             (\<exists>x. r = Some x \<and> Fin 78 < x \<and> \<not> x < Fin 24) \<or> 4 \<le> sellVotes) \<and>
          (finalAction d \<noteq> Buy \<and> finalAction d \<noteq> Sell \<longrightarrow> finalAction d = Hold)"
    using long lo hi same
    unfolding r_def [symmetric] Let_def generateCouncilDecision_def
    by (auto simp: length_councilVotes)
qed

lemma triggerRSI_flat50: "triggerRSI (replicate 50 (flatCandle 100)) = Fin 100"
  by code_simp

theorem council_decision_validity_witness:
  "50 \<le> length (replicate 50 (flatCandle 100))
   \<and> finalAction (generateCouncilDecision (replicate 50 (flatCandle 100)) ''BTCUSDT'') = Sell
   \<and> readAt (calculateRSI (closes_of (replicate 50 (flatCandle 100))) 14)
            (lastIndex (closes_of (replicate 50 (flatCandle 100)))) = Some (Fin 100)
   \<and> length (votes (generateCouncilDecision (replicate 50 (flatCandle 100)) ''BTCUSDT'')) = 7
   \<and> length ([] :: Candle list) < 50
   \<and> votes (generateCouncilDecision [] ''BTCUSDT'') = []
   \<and> finalAction (generateCouncilDecision [] ''BTCUSDT'') = Hold"
proof -
  have a: "finalAction (generateCouncilDecision (replicate 50 (flatCandle 100)) ''BTCUSDT'') = Sell"
    by (simp add: generateCouncilDecision_def Let_def triggerRSI_flat50)
  have b: "readAt (calculateRSI (closes_of (replicate 50 (flatCandle 100))) 14)
            (lastIndex (closes_of (replicate 50 (flatCandle 100)))) = Some (Fin 100)"
    by code_simp
  show ?thesis
    using council_decision_validity [of "replicate 50 (flatCandle 100)" "''BTCUSDT''"]
      council_decision_validity [of "[]" "''BTCUSDT''"] a b
    by (simp add: Let_def)
qed

subsection \<open>The MACD crossover strategy\<close>

lemma macdProp_macdLine: "macdProp m ''macdLine'' = None"
  by (simp add: macdProp_def)

lemma generateSignal_macd: "generateSignal i candles ind MacdCrossover = Inl TypeError"
  by (simp add: generateSignal_def macdProp_macdLine)

lemma btStep_macd: "strategy cfg = MacdCrossover \<Longrightarrow> btStep cfg candles ind st i = Inl TypeError"
  by (simp add: btStep_def Let_def generateSignal_macd)

text \<open>
  Claim C2 says that a backtest of \<open>macdCrossover\<close> on 50 candles or more completes and
  signals at the crossovers. It does not complete: the strategy reads \<open>macdLine\<close> and
  \<open>signalLine\<close> from an object whose properties are \<open>macd\<close> and \<open>signal\<close>, so the first
  bar of the loop throws a TypeError (and with exactly 50 candles the read of
  \<open>candles[50].date\<close> throws after an empty loop).
\<close>

theorem macdCrossover_throws:
  assumes "50 \<le> length candles" and "strategy cfg = MacdCrossover"
  shows "runBacktest symb candles cfg = Inl TypeError"
proof (cases "length candles = 50")
  case True
  then show ?thesis
    by (simp add: runBacktest_def Let_def nth_opt_def)
next
  case False
  with assms have "50 < length candles" by simp
  then have "[50..<length candles] = 50 # [51..<length candles]"
    by (simp add: upt_conv_Cons)
  then show ?thesis
    using assms by (simp add: runBacktest_def Let_def btStep_macd)
qed

theorem macdCrossover_throws_witness:
  "50 \<le> length (replicate 51 (flatCandle 100))
   \<and> strategy (DEFAULT_CONFIG\<lparr>strategy := MacdCrossover\<rparr>) = MacdCrossover
   \<and> runBacktest ''BTCUSDT'' (replicate 51 (flatCandle 100))
        (DEFAULT_CONFIG\<lparr>strategy := MacdCrossover\<rparr>) = Inl TypeError"
  using macdCrossover_throws [of "replicate 51 (flatCandle 100)"
      "DEFAULT_CONFIG\<lparr>strategy := MacdCrossover\<rparr>" "''BTCUSDT''"]
  by simp

subsection \<open>Arithmetic of finite numbers\<close>

lemma Fin_minus [simp]: "Fin a - Fin b = Fin (a - b)"
  by (simp add: minus_jsnum_def)

lemma Fin_le [simp]: "(Fin a \<le> Fin b) = (a \<le> b)"
  by (auto simp: less_eq_jsnum_def)

lemma jmax_Fin [simp]: "jmax (Fin a) (Fin b) = Fin (max a b)"
  by (simp add: jmax_def max_def)

lemma jmin_Fin [simp]: "jmin (Fin a) (Fin b) = Fin (min a b)"
  by (simp add: jmin_def min_def)

lemma not_less_self: "\<not> (x::jsnum) < x"
  by (cases x) simp_all

lemma self_minus_not_pos: "\<not> Fin t < (x::jsnum) - x" if "0 \<le> t"
  using that by (cases x) (simp_all add: minus_jsnum_def)

lemma update_fresh: "map_of xs k = None \<Longrightarrow> AList.update k v xs = xs @ [(k, v)]"
  by (induction xs) (auto split: if_splits)

subsection \<open>Buying the same symbol twice\<close>

lemma paperBuy_fresh:
  assumes "portfolio st = Some p" and "map_of (positions p) symb = None"
    and "\<not> balance p < Fin amountUSD"
  shows "paperBuy st symb amountUSD reason conf (Some price) =
           (Some \<lparr>ptSymbol = symb, ptType = BuyTrade, ptQuantity = Fin amountUSD / Fin price,
                  ptEntryPrice = Fin price, ptExitPrice = None, pnl = None,
                  pnlPercent = None, status = OpenTrade, ptReason = reason,
                  ptConfidence = Fin conf\<rparr>,
            st\<lparr>portfolio := Some (p\<lparr>balance := balance p - Fin amountUSD,
                    positions := positions p @ [(symb, \<lparr>quantity = Fin amountUSD / Fin price,
                        avgCost = Fin price, posStopLoss = None, posTakeProfit = None\<rparr>)],
                    ptTrades := ptTrades p @ [\<lparr>ptSymbol = symb, ptType = BuyTrade,
                        ptQuantity = Fin amountUSD / Fin price,
                        ptEntryPrice = Fin price, ptExitPrice = None, pnl = None,
                        pnlPercent = None, status = OpenTrade, ptReason = reason,
                        ptConfidence = Fin conf\<rparr>]\<rparr>),
                stored := Some (p\<lparr>balance := balance p - Fin amountUSD,
                    positions := positions p @ [(symb, \<lparr>quantity = Fin amountUSD / Fin price,
                        avgCost = Fin price, posStopLoss = None, posTakeProfit = None\<rparr>)],
                    ptTrades := ptTrades p @ [\<lparr>ptSymbol = symb, ptType = BuyTrade,
                        ptQuantity = Fin amountUSD / Fin price,
                        ptEntryPrice = Fin price, ptExitPrice = None, pnl = None,
                        pnlPercent = None, status = OpenTrade, ptReason = reason,
                        ptConfidence = Fin conf\<rparr>]\<rparr>)\<rparr>)"
  using assms
  by (simp add: paperBuy_def savePaperPortfolio_def Let_def update_fresh)

lemma paperBuy_held:
  assumes "portfolio st = Some p" and "map_of (positions p) symb = Some pos"
  shows "paperBuy st symb amountUSD reason conf ticker = (None, st)"
  using assms by (simp add: paperBuy_def)

text \<open>
  Claim C3 expects two buys of 1000 USD of one symbol, at 50000 and at 25000, to leave one
  position of quantity 0.06 at the weighted average cost 33333.33. They do not: after both
  calls on a fresh portfolio of 10000 USD the position is still 0.02 units at cost 50000,
  and the second call returned null.
\<close>

theorem weighted_average_scenario_counterexample:
  "map_option positions
     (portfolio (snd (paperBuy
        (snd (paperBuy (initializePaperPortfolio emptyState 10000)
                ''BTCUSDT'' 1000 ''Manual'' 100 (Some 50000)))
        ''BTCUSDT'' 1000 ''Manual'' 100 (Some 25000))))
   = Some [(''BTCUSDT'', \<lparr>quantity = Fin (1 / 50), avgCost = Fin 50000,
                          posStopLoss = None, posTakeProfit = None\<rparr>)]
   \<and> map_option positions
     (portfolio (snd (paperBuy
        (snd (paperBuy (initializePaperPortfolio emptyState 10000)
                ''BTCUSDT'' 1000 ''Manual'' 100 (Some 50000)))
        ''BTCUSDT'' 1000 ''Manual'' 100 (Some 25000))))
   \<noteq> Some [(''BTCUSDT'', \<lparr>quantity = Fin 0.06, avgCost = Fin (100000 / 3),
                          posStopLoss = None, posTakeProfit = None\<rparr>)]
   \<and> fst (paperBuy
        (snd (paperBuy (initializePaperPortfolio emptyState 10000)
                ''BTCUSDT'' 1000 ''Manual'' 100 (Some 50000)))
        ''BTCUSDT'' 1000 ''Manual'' 100 (Some 25000)) = None"
  by (simp add: paperBuy_def initializePaperPortfolio_def savePaperPortfolio_def emptyState_def Let_def)

text \<open>
  Claim C3 as the code has it: from a portfolio without a position in the symbol and with
  at least 1000 USD, the first buy at 50000 adds the position (0.02 units at cost 50000)
  and takes 1000 USD from the balance; the second buy of the same symbol returns null and
  changes nothing, since \<open>paperBuy\<close> refuses a symbol that is already held. (The
  weighted-average branch of \<open>paperBuy\<close> sits behind that refusal.)
\<close>

theorem paperBuy_same_symbol_twice:
  assumes "portfolio st = Some p" and "map_of (positions p) symb = None"
    and "\<not> balance p < Fin 1000"
  shows "let r1 = paperBuy st symb 1000 reason1 conf1 (Some 50000);
             r2 = paperBuy (snd r1) symb 1000 reason2 conf2 (Some 25000)
         in fst r1 \<noteq> None
            \<and> map_option positions (portfolio (snd r1))
                = Some (positions p @ [(symb, \<lparr>quantity = Fin (1 / 50), avgCost = Fin 50000,
                                               posStopLoss = None, posTakeProfit = None\<rparr>)])
            \<and> map_option balance (portfolio (snd r1)) = Some (balance p - Fin 1000)
            \<and> fst r2 = None \<and> snd r2 = snd r1"
proof -
  let ?r1 = "paperBuy st symb 1000 reason1 conf1 (Some 50000)"
  note first = paperBuy_fresh [OF assms, of reason1 conf1 50000]
  obtain p1 where p1: "portfolio (snd ?r1) = Some p1"
    and pos1: "positions p1 = positions p @ [(symb, \<lparr>quantity = Fin (1 / 50), avgCost = Fin 50000,
                                               posStopLoss = None, posTakeProfit = None\<rparr>)]"
    and bal1: "balance p1 = balance p - Fin 1000"
    unfolding first by simp
  have held: "map_of (positions p1) symb = Some \<lparr>quantity = Fin (1 / 50), avgCost = Fin 50000,
                                               posStopLoss = None, posTakeProfit = None\<rparr>"
    using assms(2) by (simp add: pos1 map_add_def)
  have second: "paperBuy (snd ?r1) symb 1000 reason2 conf2 (Some 25000) = (None, snd ?r1)"
    by (rule paperBuy_held [OF p1 held])
  show ?thesis
    unfolding Let_def second using p1 pos1 bal1 first by simp
qed

theorem paperBuy_same_symbol_twice_witness:
  "portfolio (initializePaperPortfolio emptyState 10000)
     = Some \<lparr>balance = Fin 10000, initialBalance = Fin 10000, positions = [], ptTrades = []\<rparr>
   \<and> map_of (positions \<lparr>balance = Fin 10000, initialBalance = Fin 10000, positions = [], ptTrades = []\<rparr>) ''BTCUSDT'' = None
   \<and> \<not> balance \<lparr>balance = Fin 10000, initialBalance = Fin 10000, positions = [], ptTrades = []\<rparr> < Fin 1000
   \<and> map_option positions
       (portfolio (snd (paperBuy (initializePaperPortfolio emptyState 10000)
                          ''BTCUSDT'' 1000 ''Manual'' 100 (Some 50000))))
      = Some [(''BTCUSDT'', \<lparr>quantity = Fin (1 / 50), avgCost = Fin 50000,
                             posStopLoss = None, posTakeProfit = None\<rparr>)]
   \<and> snd (paperBuy (snd (paperBuy (initializePaperPortfolio emptyState 10000)
                          ''BTCUSDT'' 1000 ''Manual'' 100 (Some 50000)))
             ''BTCUSDT'' 1000 ''Manual'' 100 (Some 25000))
      = snd (paperBuy (initializePaperPortfolio emptyState 10000)
                          ''BTCUSDT'' 1000 ''Manual'' 100 (Some 50000))"
proof -
  have a: "portfolio (initializePaperPortfolio emptyState 10000)
     = Some \<lparr>balance = Fin 10000, initialBalance = Fin 10000, positions = [], ptTrades = []\<rparr>"
    by (simp add: initializePaperPortfolio_def savePaperPortfolio_def emptyState_def)
  have b: "map_of (positions \<lparr>balance = Fin 10000, initialBalance = Fin 10000, positions = [], ptTrades = []\<rparr>) ''BTCUSDT'' = None"
    by simp
  have c: "\<not> balance \<lparr>balance = Fin 10000, initialBalance = Fin 10000, positions = [], ptTrades = []\<rparr> < Fin 1000"
    by simp
  show ?thesis
    using paperBuy_same_symbol_twice [OF a b c, of "''Manual''" 100 "''Manual''" 100] a
    by (simp add: Let_def)
qed

subsection \<open>Selling with quantity 0\<close>

text \<open>
  Claim C9. For a held symbol and an answering ticker, \<open>paperSell\<close> with the quantity
  argument 0 does exactly what it does with the argument left out: it sells the whole
  position, removes the entry and appends a closed sell trade for the held quantity.
\<close>

theorem paperSell_zero_quantity:
  assumes "portfolio st = Some p" and "map_of (positions p) symb = Some pos"
  shows "let r = paperSell st symb (Some 0) reason (Some price)
         in r = paperSell st symb None reason (Some price)
            \<and> map_option ptQuantity (fst r) = Some (quantity pos)
            \<and> map_option status (fst r) = Some ClosedTrade
            \<and> map_option ptType (fst r) = Some SellTrade
            \<and> map_option positions (portfolio (snd r)) = Some (AList.delete symb (positions p))
            \<and> map_option (\<lambda>p'. map_of (positions p') symb) (portfolio (snd r)) = Some None
            \<and> map_option ptTrades (portfolio (snd r)) = Some (ptTrades p @ [the (fst r)])"
  using assms
  by (simp add: paperSell_def realOrElse_def orElse_def truthy_def Let_def not_less_self
      self_minus_not_pos savePaperPortfolio_def delete_conv')

theorem paperSell_zero_quantity_witness:
  "portfolio \<lparr>portfolio = Some \<lparr>balance = Fin 9000, initialBalance = Fin 10000,
        positions = [(''BTCUSDT'', \<lparr>quantity = Fin (1 / 50), avgCost = Fin 50000,
                                    posStopLoss = None, posTakeProfit = None\<rparr>)],
        ptTrades = []\<rparr>, stored = None\<rparr>
     = Some \<lparr>balance = Fin 9000, initialBalance = Fin 10000,
        positions = [(''BTCUSDT'', \<lparr>quantity = Fin (1 / 50), avgCost = Fin 50000,
                                    posStopLoss = None, posTakeProfit = None\<rparr>)],
        ptTrades = []\<rparr>
   \<and> map_option ptQuantity (fst (paperSell \<lparr>portfolio = Some \<lparr>balance = Fin 9000,
        initialBalance = Fin 10000,
        positions = [(''BTCUSDT'', \<lparr>quantity = Fin (1 / 50), avgCost = Fin 50000,
                                    posStopLoss = None, posTakeProfit = None\<rparr>)],
        ptTrades = []\<rparr>, stored = None\<rparr> ''BTCUSDT'' (Some 0) ''Manual sell'' (Some 60000)))
     = Some (Fin (1 / 50))
   \<and> map_option positions (portfolio (snd (paperSell \<lparr>portfolio = Some \<lparr>balance = Fin 9000,
        initialBalance = Fin 10000,
        positions = [(''BTCUSDT'', \<lparr>quantity = Fin (1 / 50), avgCost = Fin 50000,
                                    posStopLoss = None, posTakeProfit = None\<rparr>)],
        ptTrades = []\<rparr>, stored = None\<rparr> ''BTCUSDT'' (Some 0) ''Manual sell'' (Some 60000))))
     = Some []"
proof -
  let ?pos = "\<lparr>quantity = Fin (1 / 50), avgCost = Fin 50000, posStopLoss = None,
               posTakeProfit = None\<rparr>"
  let ?p = "\<lparr>balance = Fin 9000, initialBalance = Fin 10000,
             positions = [(''BTCUSDT'', ?pos)], ptTrades = []\<rparr>"
  let ?st = "\<lparr>portfolio = Some ?p, stored = None\<rparr>"
  have a: "portfolio ?st = Some ?p" by simp
  have b: "map_of (positions ?p) ''BTCUSDT'' = Some ?pos" by simp
  note w = paperSell_zero_quantity [OF a b, of "''Manual sell''" 60000, unfolded Let_def]
  from w have q: "map_option ptQuantity (fst (paperSell ?st ''BTCUSDT'' (Some 0) ''Manual sell''
                     (Some 60000))) = Some (quantity ?pos)"
    by (elim conjE)
  from w have d: "map_option positions (portfolio (snd (paperSell ?st ''BTCUSDT'' (Some 0)
                     ''Manual sell'' (Some 60000)))) = Some (AList.delete ''BTCUSDT'' (positions ?p))"
    by (elim conjE)
  have q': "quantity ?pos = Fin (1 / 50)" by simp
  have d': "AList.delete ''BTCUSDT'' (positions ?p) = []" by (simp add: AList.delete_eq)
  show ?thesis
    using a q d unfolding q' d' by (intro conjI)
qed

subsection \<open>Volatility classes and multipliers\<close>

text \<open>
  Claim C7 says that low volatility scales the take-profit multiplier by 0.8. The code
  scales it by 0.9: on 15 flat bars at 100 and an entry at 50 the ATR falls back to 1, the
  class is low, and the second target is 50 + 1 * (3 * 0.9) = 52.7.
\<close>

theorem low_volatility_tp_counterexample:
  "volatilityLevel (calculateDynamicRiskLevels (replicate 15 (flatCandle 100)) 50 Long 2 3) = LowVol
   \<and> atrValue (calculateDynamicRiskLevels (replicate 15 (flatCandle 100)) 50 Long 2 3) = Fin 1
   \<and> takeProfit2 (calculateDynamicRiskLevels (replicate 15 (flatCandle 100)) 50 Long 2 3) = Fin 52.7
   \<and> snd (adjustMultipliers LowVol 2 3) = Fin 2.7
   \<and> snd (adjustMultipliers LowVol 2 3) \<noteq> Fin 3 * Fin 0.8"
  by code_simp

text \<open>
  Claim C7 as the code has it. The class is low when the ATR percentage is below 2, medium
  from 2 up to but not including 5, and high from 5 on (also when the percentage is
  infinite or not a number). High volatility scales the stop-loss multiplier by 0.8 and the
  take-profit multiplier by 1.2, low volatility scales them by 1.2 and by 0.9, medium leaves
  both as they are; the levels of a long position are the entry minus, respectively plus,
  the ATR times the scaled multiplier.
\<close>

theorem volatility_scaling:
  "classifyVolatility (Fin x) = (if x < 2 then LowVol else if x < 5 then MediumVol else HighVol)
   \<and> classifyVolatility PInf = HighVol \<and> classifyVolatility NaN = HighVol
   \<and> classifyVolatility NInf = LowVol
   \<and> volatilityLevel (calculateDynamicRiskLevels candles entry dir sl tp)
       = classifyVolatility (atrPercentOf candles (currentATROf candles entry))
   \<and> adjustMultipliers HighVol sl tp = (Fin (sl * 0.8), Fin (tp * 1.2))
   \<and> adjustMultipliers LowVol sl tp = (Fin (sl * 1.2), Fin (tp * 0.9))
   \<and> adjustMultipliers MediumVol sl tp = (Fin sl, Fin tp)
   \<and> stopLoss (calculateDynamicRiskLevels candles entry Long sl tp)
       = Fin entry - (currentATROf candles entry
           * fst (adjustMultipliers (classifyVolatility (atrPercentOf candles (currentATROf candles entry))) sl tp))
   \<and> takeProfit2 (calculateDynamicRiskLevels candles entry Long sl tp)
       = Fin entry + (currentATROf candles entry
           * snd (adjustMultipliers (classifyVolatility (atrPercentOf candles (currentATROf candles entry))) sl tp))"
  by (simp add: classifyVolatility_def adjustMultipliers_def calculateDynamicRiskLevels_def Let_def)

theorem volatility_scaling_witness:
  "classifyVolatility (Fin 1) = LowVol \<and> classifyVolatility (Fin 2) = MediumVol
   \<and> classifyVolatility (Fin 5) = HighVol
   \<and> adjustMultipliers LowVol 2 3 = (Fin 2.4, Fin 2.7)
   \<and> adjustMultipliers HighVol 2 3 = (Fin 1.6, Fin 3.6)"
  using volatility_scaling [of 1 "[]" 1 Long 2 3] volatility_scaling [of 2 "[]" 1 Long 2 3]
    volatility_scaling [of 5 "[]" 1 Long 2 3]
  by simp

subsection \<open>Indicators on a constant window\<close>

lemma jsum_replicate_aux: "foldl (+) (Fin a) (replicate n (Fin p)) = Fin (a + real n * p)"
  by (induction n arbitrary: a) (simp_all add: algebra_simps)

lemma jsum_replicate: "jsum (replicate n (Fin p)) = Fin (real n * p)"
  by (simp add: jsum_def jsum_replicate_aux)

lemma sqdev_replicate:
  "foldl (\<lambda>sm val. sm + ((val - Fin p) * (val - Fin p))) (Fin a) (replicate n (Fin p)) = Fin a"
  by (induction n arbitrary: a) (simp_all add: minus_jsnum_def)

lemma const_slice:
  assumes "\<forall>v \<in> set sl. v = x"
  shows "sl = replicate (length sl) x"
  using assms by (simp add: replicate_length_same)

lemma length_slice: "b \<le> length xs \<Longrightarrow> length (slice xs a b) = b - a"
  by (simp add: slice_def)

lemma sma_const_window:
  assumes "0 < period" and "period \<le> i + 1" and "i < length values"
    and "\<forall>v \<in> set (slice values (i + 1 - period) (i + 1)). v = Fin p"
  shows "calculateSMA values period ! i = Some (Fin p)"
proof -
  let ?sl = "slice values (i + 1 - period) (i + 1)"
  have len: "length ?sl = period" using assms by (simp add: slice_def)
  have "?sl = replicate period (Fin p)"
    using const_slice [OF assms(4)] len by simp
  then have sl: "slice values (Suc i - period) (Suc i) = replicate period (Fin p)"
    by simp
  show ?thesis
    using assms(1-3) by (simp add: calculateSMA_def sl jsum_replicate)
qed

lemma length_calculateSMA [simp]: "length (calculateSMA values period) = length values"
  by (simp add: calculateSMA_def)

lemma bollinger_const_window:
  assumes "0 < period" and "period \<le> i + 1" and "i < length values"
    and "\<forall>v \<in> set (slice values (i + 1 - period) (i + 1)). v = Fin p"
  shows "upper (calculateBollingerBands values period (Fin m)) ! i = Some (Fin p)"
    and "middle (calculateBollingerBands values period (Fin m)) ! i = Some (Fin p)"
    and "lower (calculateBollingerBands values period (Fin m)) ! i = Some (Fin p)"
proof -
  let ?sl = "slice values (i + 1 - period) (i + 1)"
  have len: "length ?sl = period" using assms by (simp add: slice_def)
  have "?sl = replicate period (Fin p)"
    using const_slice [OF assms(4)] len by simp
  then have sl: "slice values (Suc i - period) (Suc i) = replicate period (Fin p)"
    by simp
  have sma: "calculateSMA values period ! i = Some (Fin p)"
    by (rule sma_const_window [OF assms])
  have sd: "windowStdDev values (calculateSMA values period) period i = Fin 0"
    using assms(1) by (simp add: windowStdDev_def windowMean_def sma sl sqdev_replicate Let_def)
  show "upper (calculateBollingerBands values period (Fin m)) ! i = Some (Fin p)"
    using assms(1-3) by (simp add: calculateBollingerBands_def Let_def windowMean_def sma sd)
  show "middle (calculateBollingerBands values period (Fin m)) ! i = Some (Fin p)"
    by (simp add: calculateBollingerBands_def Let_def sma)
  show "lower (calculateBollingerBands values period (Fin m)) ! i = Some (Fin p)"
    using assms(1-3) by (simp add: calculateBollingerBands_def Let_def windowMean_def sma sd)
qed






lemma length_closes_of [simp]: "length (closes_of candles) = length candles"
  by (simp add: closes_of_def)



subsection \<open>The unguarded division of Aether\<close>











subsection \<open>Backtest of a flat series\<close>

lemma compositeScore_le:
  "compositeScore (Fin p) rsi hist (Some (Fin p)) (Some (Fin p)) ub \<le> 2"
  by (auto simp: compositeScore_def Let_def split: option.splits)

lemma set_slice_subset: "set (slice xs a b) \<subseteq> set xs"
  unfolding slice_def by (meson set_take_subset set_drop_subset subset_trans)

lemma flat_closes:
  assumes "\<forall>c \<in> set candles. close c = p"
  shows "\<forall>v \<in> set (slice (closes_of candles) a b). v = Fin p"
proof
  fix v assume "v \<in> set (slice (closes_of candles) a b)"
  then have "v \<in> set (closes_of candles)" by (rule subsetD [OF set_slice_subset])
  then show "v = Fin p" using assms by (auto simp: closes_of_def)
qed

lemma generateSignal_flat:
  assumes flat: "\<forall>c \<in> set candles. close c = p"
    and i: "19 \<le> i" "i < length candles"
  shows "\<exists>sg. generateSignal i candles (calculateIndicators candles strat) ArgusComposite = Inr sg
              \<and> sg \<noteq> Buy"
proof -
  let ?closes = "closes_of candles"
  have len: "i < length ?closes" using i by simp
  have per: "(0::nat) < 20" "20 \<le> i + 1" using i by simp_all
  note win = flat_closes [OF flat, of "i + 1 - 20" "i + 1"]
  have sma: "calculateSMA ?closes 20 ! i = Some (Fin p)"
    by (rule sma_const_window [OF per len win])
  note bands = bollinger_const_window [OF per len win, of 2]
  have price: "cl (candles ! i) = Fin p"
    using flat i by (simp add: cl_def)
  show ?thesis
    using compositeScore_le [of p "calculateRSI ?closes 14 ! i"
        "histogram (calculateMACD ?closes 12 26 9) ! i"
        "upper (calculateBollingerBands ?closes 20 (Fin 2)) ! i"]
    by (simp add: generateSignal_def calculateIndicators_def Let_def price sma bands)
qed

lemma btStep_no_buy:
  assumes "position st = None"
    and "generateSignal i candles ind (strategy cfg) = Inr sg" and "sg \<noteq> Buy"
  shows "\<exists>st'. btStep cfg candles ind st i = Inr st' \<and> position st' = None
               \<and> capital st' = capital st \<and> trades st' = trades st
               \<and> signals st' = signals st"
  using assms by (simp add: btStep_def Let_def)

lemma btLoop_no_buy:
  assumes "position st = None"
    and "\<forall>i \<in> set idxs. \<exists>sg. generateSignal i candles ind (strategy cfg) = Inr sg \<and> sg \<noteq> Buy"
  shows "\<exists>st'. btLoop cfg candles ind st idxs = Inr st' \<and> position st' = None
               \<and> capital st' = capital st \<and> trades st' = trades st
               \<and> signals st' = signals st"
  using assms
proof (induction idxs arbitrary: st)
  case Nil
  then show ?case by simp
next
  case (Cons i rest)
  from Cons.prems(2) obtain sg where sg: "generateSignal i candles ind (strategy cfg) = Inr sg"
    "sg \<noteq> Buy" by auto
  from btStep_no_buy [OF Cons.prems(1) sg] obtain st1 where
    st1: "btStep cfg candles ind st i = Inr st1" "position st1 = None"
      "capital st1 = capital st" "trades st1 = trades st" "signals st1 = signals st"
    by blast
  have rest: "\<forall>i \<in> set rest. \<exists>sg. generateSignal i candles ind (strategy cfg) = Inr sg \<and> sg \<noteq> Buy"
    using Cons.prems(2) by simp
  from Cons.IH [OF st1(2) rest] obtain st' where
    "btLoop cfg candles ind st1 rest = Inr st'" "position st' = None"
    "capital st' = capital st1" "trades st' = trades st1" "signals st' = signals st1"
    by blast
  then show ?case using st1 by simp
qed

text \<open>
  Claim C6. On 200 bars whose four prices all equal one constant, the backtest of
  \<open>argusComposite\<close> returns a result with no trade and no signal, and its final capital
  is the initial capital.
\<close>

theorem flat_series_backtest:
  assumes "length candles = 200"
    and "\<forall>c \<in> set candles. open c = p \<and> high c = p \<and> low c = p \<and> close c = p"
    and "strategy cfg = ArgusComposite"
  shows "case runBacktest symb candles cfg of
           Inl e \<Rightarrow> False
         | Inr r \<Rightarrow> resTrades r = [] \<and> totalTrades r = 0 \<and> resSignals r = []
                    \<and> finalCapital r = Fin (initialCapital cfg)
                    \<and> finalCapital r = resInitialCapital r"
proof -
  let ?ind = "calculateIndicators candles (strategy cfg)"
  let ?st0 = "\<lparr>capital = Fin (initialCapital cfg), position = None, trades = [],
                equityCurve = [], signals = [], peakEquity = Fin (initialCapital cfg),
                maxDrawdown = Fin 0\<rparr>"
  have flat: "\<forall>c \<in> set candles. close c = p" using assms(2) by simp
  have sig: "\<forall>i \<in> set [50..<length candles].
               \<exists>sg. generateSignal i candles ?ind (strategy cfg) = Inr sg \<and> sg \<noteq> Buy"
  proof
    fix i assume "i \<in> set [50..<length candles]"
    then have "19 \<le> i" "i < length candles" by simp_all
    from generateSignal_flat [OF flat this, of "strategy cfg"]
    show "\<exists>sg. generateSignal i candles ?ind (strategy cfg) = Inr sg \<and> sg \<noteq> Buy"
      by (simp add: assms(3))
  qed
  have p0: "position ?st0 = None" by simp
  from btLoop_no_buy [OF p0 sig] obtain st1 where
    st1: "btLoop cfg candles ?ind ?st0 [50..<length candles] = Inr st1" "position st1 = None"
      "capital st1 = Fin (initialCapital cfg)" "trades st1 = []" "signals st1 = []"
    by auto
  have c50: "nth_opt candles 50 = Some (candles ! 50)"
    using assms(1) by (simp add: nth_opt_def)
  have cr: "closeRemaining candles st1 = st1"
    by (simp add: closeRemaining_def st1(2))
  have long: "\<not> length candles < 50" using assms(1) by simp
  show ?thesis
    by (simp add: runBacktest_def Let_def long st1 c50 cr)
qed

theorem flat_series_backtest_witness:
  "length (replicate 200 (flatCandle 100)) = 200
   \<and> list_all (\<lambda>c. open c = 100 \<and> high c = 100 \<and> low c = 100 \<and> close c = 100)
         (replicate 200 (flatCandle 100))
   \<and> strategy (DEFAULT_CONFIG\<lparr>strategy := ArgusComposite\<rparr>) = ArgusComposite
   \<and> (case runBacktest ''BTCUSDT'' (replicate 200 (flatCandle 100))
              (DEFAULT_CONFIG\<lparr>strategy := ArgusComposite\<rparr>) of
         Inl e \<Rightarrow> False
       | Inr r \<Rightarrow> resTrades r = [] \<and> totalTrades r = 0 \<and> finalCapital r = Fin 10000)"
proof -
  have a: "length (replicate 200 (flatCandle 100)) = 200" by simp
  have b: "\<forall>c \<in> set (replicate 200 (flatCandle 100)).
         open c = 100 \<and> high c = 100 \<and> low c = 100 \<and> close c = 100"
    by (simp add: flatCandle_def)
  have c: "strategy (DEFAULT_CONFIG\<lparr>strategy := ArgusComposite\<rparr>) = ArgusComposite" by simp
  have d: "initialCapital (DEFAULT_CONFIG\<lparr>strategy := ArgusComposite\<rparr>) = 10000"
    by (simp add: DEFAULT_CONFIG_def)
  show ?thesis
    using flat_series_backtest [OF a b c, of "''BTCUSDT''"] a b c
    by (auto simp: d list_all_iff split: sum.splits)
qed

subsection \<open>RSI bounds\<close>

lemma gainOf_Fin: "gainOf (Fin c) = Fin (if 0 < c then c else 0)"
  by (simp add: gainOf_def)

lemma lossOf_Fin: "lossOf (Fin c) = Fin (if c < 0 then - c else 0)"
  by (simp add: lossOf_def)

lemma rsiOf_bounds:
  assumes "0 \<le> g" and "0 \<le> l"
  shows "\<exists>r. rsiOf (Fin g, Fin l) = Fin r \<and> 0 \<le> r \<and> r \<le> 100"
proof (cases "l = 0")
  case True
  then show ?thesis by (simp add: rsiOf_def jeq_def)
next
  case False
  with assms have l: "0 < l" by simp
  have "0 \<le> g / l" using assms(1) l by simp
  then have d: "1 \<le> 1 + g / l" by simp
  then have nz: "1 + g / l \<noteq> 0" by linarith
  have "100 / (1 + g / l) \<le> 100 / 1"
    using d by (intro divide_left_mono) simp_all
  moreover have "0 \<le> 100 / (1 + g / l)" using d by simp
  ultimately have "0 \<le> 100 - 100 / (1 + g / l)" "100 - 100 / (1 + g / l) \<le> 100" by simp_all
  moreover have "rsiOf (Fin g, Fin l) = Fin (100 - 100 / (1 + g / l))"
    using False nz by (simp add: rsiOf_def jeq_def Let_def)
  ultimately show ?thesis by blast
qed


lemma length_rsiLoop [simp]: "length (rsiLoop period st prev vs) = length vs"
  by (induction vs arbitrary: st prev) (simp_all add: Let_def)

lemma rsiLoop_Some: "e \<in> set (rsiLoop period st prev vs) \<Longrightarrow> e \<noteq> None"
  by (induction vs arbitrary: st prev) (auto simp: Let_def)

lemma length_rsiAverages [simp]: "length (rsiAverages values period) = length values"
  by (auto simp: rsiAverages_def Let_def)

lemma length_calculateRSI [simp]: "length (calculateRSI values period) = length values"
  by (simp add: calculateRSI_def)

lemma rsiAverages_None_iff:
  assumes "i < length values"
  shows "(rsiAverages values period ! i = None) = (i < period)"
proof (cases "length values \<le> period")
  case True
  then show ?thesis using assms by (simp add: rsiAverages_def)
next
  case False
  let ?loop = "rsiLoop period
      (jsum (map gainOf (map (\<lambda>i. values ! i - values ! (i - 1)) [1..<period + 1])) / Fin (real period),
       jsum (map lossOf (map (\<lambda>i. values ! i - values ! (i - 1)) [1..<period + 1])) / Fin (real period))
      (values ! period) (drop (period + 1) values)"
  consider "i < period" | "i = period" | "period < i" by linarith
  then show ?thesis
  proof cases
    case 1
    then show ?thesis using False by (simp add: rsiAverages_def Let_def nth_append)
  next
    case 2
    then show ?thesis using False by (simp add: rsiAverages_def Let_def nth_append)
  next
    case 3
    then have idx: "i - period - 1 < length ?loop" using assms False by simp
    have "?loop ! (i - period - 1) \<in> set ?loop" by (rule nth_mem [OF idx])
    then have "?loop ! (i - period - 1) \<noteq> None" by (rule rsiLoop_Some)
    moreover have "rsiAverages values period ! i = ?loop ! (i - period - 1)"
      using False 3 by (simp add: rsiAverages_def Let_def nth_append nth_Cons')
    ultimately show ?thesis using 3 by simp
  qed
qed

lemma jsum_Fin_aux: "foldl (+) (Fin a) (map (\<lambda>i. Fin (f i)) idxs) = Fin (a + sum_list (map f idxs))"
  by (induction idxs arbitrary: a) (simp_all add: algebra_simps)

lemma jsum_Fin: "jsum (map (\<lambda>i. Fin (f i)) idxs) = Fin (sum_list (map f idxs))"
  by (simp add: jsum_def jsum_Fin_aux)

lemma wilder_step_le:
  assumes "0 < period" and "0 \<le> a" and "a \<le> M" and "0 \<le> x" and "x \<le> M"
  shows "\<exists>a'. ((Fin a * Fin (real period - 1)) + Fin x) / Fin (real period) = Fin a'
           \<and> 0 \<le> a' \<and> a' \<le> M"
proof -
  have p: "0 < real period" "0 \<le> real period - 1" using assms(1) by simp_all
  have "a * (real period - 1) \<le> M * (real period - 1)"
    using assms(3) p(2) by (rule mult_right_mono)
  then have "a * (real period - 1) + x \<le> M * real period"
    using assms(5) by (simp add: algebra_simps)
  then have le: "(a * (real period - 1) + x) / real period \<le> M"
    using p(1) by (simp add: pos_divide_le_eq)
  have "0 \<le> (a * (real period - 1) + x) / real period"
    using assms(2,4) p by (intro divide_nonneg_nonneg add_nonneg_nonneg mult_nonneg_nonneg) simp_all
  then show ?thesis using le assms(1) by simp
qed

lemma sum_list_le_const:
  "\<forall>x \<in> set xs. f x \<le> (c::real) \<Longrightarrow> sum_list (map f xs) \<le> real (length xs) * c"
  by (induction xs) (auto simp: algebra_simps)

lemma rsiLoop_bounded:
  assumes "0 < period" and "0 \<le> g" and "g \<le> 2 * B" and "0 \<le> l" and "l \<le> 2 * B"
    and "\<bar>prev\<bar> \<le> B" and "\<forall>y \<in> set ys. \<bar>y\<bar> \<le> B"
  shows "\<forall>e \<in> set (rsiLoop period (Fin g, Fin l) (Fin prev) (map Fin ys)).
           \<exists>g' l'. e = Some (Fin g', Fin l') \<and> 0 \<le> g' \<and> g' \<le> 2 * B \<and> 0 \<le> l' \<and> l' \<le> 2 * B"
  using assms(2-7)
proof (induction ys arbitrary: g l prev)
  case Nil
  then show ?case by simp
next
  case (Cons y ys)
  let ?c = "y - prev"
  have y: "\<bar>y\<bar> \<le> B" using Cons.prems(6) by simp
  have gn: "0 \<le> (if 0 < ?c then ?c else 0)" "(if 0 < ?c then ?c else 0) \<le> 2 * B"
    using y Cons.prems(5) by auto
  have ln: "0 \<le> (if ?c < 0 then - ?c else 0)" "(if ?c < 0 then - ?c else 0) \<le> 2 * B"
    using y Cons.prems(5) by auto
  obtain g' where g': "((Fin g * Fin (real period - 1)) + Fin (if 0 < ?c then ?c else 0))
                        / Fin (real period) = Fin g'" "0 \<le> g'" "g' \<le> 2 * B"
    using wilder_step_le [OF assms(1) Cons.prems(1,2) gn] by blast
  obtain l' where l': "((Fin l * Fin (real period - 1)) + Fin (if ?c < 0 then - ?c else 0))
                        / Fin (real period) = Fin l'" "0 \<le> l'" "l' \<le> 2 * B"
    using wilder_step_le [OF assms(1) Cons.prems(3,4) ln] by blast
  have step: "rsiLoop period (Fin g, Fin l) (Fin prev) (map Fin (y # ys))
              = Some (Fin g', Fin l') # rsiLoop period (Fin g', Fin l') (Fin y) (map Fin ys)"
    using g'(1) l'(1) by (simp add: Let_def gainOf_Fin lossOf_Fin minus_jsnum_def)
  have rest: "\<forall>y \<in> set ys. \<bar>y\<bar> \<le> B" using Cons.prems(6) by simp
  show ?case
    unfolding step using Cons.IH [OF g'(2,3) l'(2,3) y rest] g'(2,3) l'(2,3) by simp
qed

lemma rsiAverages_bounded:
  assumes "0 < period" and "i < length xs"
    and "rsiAverages (map Fin xs) period ! i = Some st"
    and "\<forall>x \<in> set xs. \<bar>x\<bar> \<le> B"
  shows "\<exists>g l. st = (Fin g, Fin l) \<and> 0 \<le> g \<and> g \<le> 2 * B \<and> 0 \<le> l \<and> l \<le> 2 * B"
proof (cases "length xs \<le> period")
  case True
  then show ?thesis using assms by (simp add: rsiAverages_def)
next
  case False
  let ?vs = "map Fin xs"
  define ch where "ch = (\<lambda>i. xs ! i - xs ! (i - 1))"
  define gn where "gn = (\<lambda>i. if 0 < ch i then ch i else 0)"
  define ls where "ls = (\<lambda>i. if ch i < 0 then - ch i else 0)"
  have ch: "map (\<lambda>i. ?vs ! i - ?vs ! (i - 1)) [1..<period + 1] = map (\<lambda>i. Fin (ch i)) [1..<period + 1]"
    using False by (auto simp: minus_jsnum_def ch_def)
  have G: "jsum (map gainOf (map (\<lambda>i. ?vs ! i - ?vs ! (i - 1)) [1..<period + 1]))
           = Fin (sum_list (map gn [1..<period + 1]))"
    unfolding ch gn_def by (simp only: map_map o_def gainOf_Fin jsum_Fin)
  have L: "jsum (map lossOf (map (\<lambda>i. ?vs ! i - ?vs ! (i - 1)) [1..<period + 1]))
           = Fin (sum_list (map ls [1..<period + 1]))"
    unfolding ch ls_def by (simp only: map_map o_def lossOf_Fin jsum_Fin)
  have chB: "\<bar>ch j\<bar> \<le> 2 * B" if "j \<in> set [1..<period + 1]" for j
  proof -
    from that False have "j < length xs" "j - 1 < length xs" by auto
    then have "\<bar>xs ! j\<bar> \<le> B" "\<bar>xs ! (j - 1)\<bar> \<le> B" using assms(4) by simp_all
    then show ?thesis by (simp add: ch_def)
  qed
  have G0: "0 \<le> sum_list (map gn [1..<period + 1])"
    by (rule sum_list_nonneg) (auto simp: gn_def)
  have L0: "0 \<le> sum_list (map ls [1..<period + 1])"
    by (rule sum_list_nonneg) (auto simp: ls_def)
  have "gn j \<le> 2 * B" if "j \<in> set [1..<period + 1]" for j
    using chB [OF that] by (simp add: gn_def abs_le_iff)
  then have "\<forall>j \<in> set [1..<period + 1]. gn j \<le> 2 * B" by blast
  then have "sum_list (map gn [1..<period + 1]) \<le> real (length [1..<period + 1]) * (2 * B)"
    by (rule sum_list_le_const)
  moreover have "length [1..<period + 1] = period" by simp
  ultimately have G1: "sum_list (map gn [1..<period + 1]) \<le> real period * (2 * B)"
    by (simp only:)
  have "ls j \<le> 2 * B" if "j \<in> set [1..<period + 1]" for j
    using chB [OF that] by (simp add: ls_def abs_le_iff)
  then have "\<forall>j \<in> set [1..<period + 1]. ls j \<le> 2 * B" by blast
  then have "sum_list (map ls [1..<period + 1]) \<le> real (length [1..<period + 1]) * (2 * B)"
    by (rule sum_list_le_const)
  moreover have "length [1..<period + 1] = period" by simp
  ultimately have L1: "sum_list (map ls [1..<period + 1]) \<le> real period * (2 * B)"
    by (simp only:)
  define g0 where "g0 = sum_list (map gn [1..<period + 1]) / real period"
  define l0 where "l0 = sum_list (map ls [1..<period + 1]) / real period"
  have g0: "0 \<le> g0" "g0 \<le> 2 * B"
    using G0 G1 assms(1) by (simp_all add: g0_def pos_divide_le_eq mult.commute)
  have l0: "0 \<le> l0" "l0 \<le> 2 * B"
    using L0 L1 assms(1) by (simp_all add: l0_def pos_divide_le_eq mult.commute)
  have Gd: "Fin (sum_list (map gn [1..<period + 1])) / Fin (real period) = Fin g0"
    using assms(1) by (simp add: g0_def)
  have Ld: "Fin (sum_list (map ls [1..<period + 1])) / Fin (real period) = Fin l0"
    using assms(1) by (simp add: l0_def)
  let ?loop = "rsiLoop period (Fin g0, Fin l0) (Fin (xs ! period))
                 (map Fin (drop (period + 1) xs))"
  have vp: "?vs ! period = Fin (xs ! period)" using False by simp
  have avgs: "rsiAverages ?vs period = replicate period None @ [Some (Fin g0, Fin l0)] @ ?loop"
    using False unfolding rsiAverages_def Let_def G L Gd Ld vp
    by (simp add: drop_map)
  have pB: "\<bar>xs ! period\<bar> \<le> B" using False assms(4) by simp
  have dB: "\<forall>y \<in> set (drop (period + 1) xs). \<bar>y\<bar> \<le> B"
    using assms(4) by (meson in_set_dropD)
  consider "i < period" | "i = period" | "period < i" by linarith
  then show ?thesis
  proof cases
    case 1
    then show ?thesis using assms(3) unfolding avgs by (simp add: nth_append)
  next
    case 2
    then show ?thesis using assms(3) g0 l0 unfolding avgs by (auto simp: nth_append)
  next
    case 3
    then have idx: "i - period - 1 < length ?loop" using assms(2) False by simp
    have mem: "?loop ! (i - period - 1) \<in> set ?loop" by (rule nth_mem [OF idx])
    have "rsiAverages ?vs period ! i = ?loop ! (i - period - 1)"
      unfolding avgs using 3 by (simp add: nth_append nth_Cons')
    then have "Some st \<in> set ?loop" using mem assms(3) by simp
    then show ?thesis
      using rsiLoop_bounded [OF assms(1) g0 l0 pB dB] by auto
  qed
qed

text \<open>
  Claim C8 says that every defined RSI value lies in [0, 100] for every period. With
  period 0 the two averages are 0 / 0, and every entry of the result is defined and NaN.
\<close>

theorem rsi_period_zero_counterexample:
  "calculateRSI [Fin 1, Fin 2] 0 = [Some NaN, Some NaN]
   \<and> \<not> (Fin 0 \<le> NaN \<and> NaN \<le> Fin 100)"
  by (simp add: calculateRSI_def rsiAverages_def rsiOf_def jsum_def jeq_def gainOf_def lossOf_def
      minus_jsnum_def less_eq_jsnum_def)

text \<open>
  Claim C8 as the code has it, for every sequence of finite prices. The result is as long
  as the input. For every period the defined values are exactly those at the indices from
  \<open>period\<close> on (none when the input is not longer than the period), and a value whose
  Wilder average loss is 0 is exactly 100: the prices 1, 2, 1, 2 with period 2 give 50 and
  75, the rising prices 1, 2, 3, 4 give 100 twice. The bound on the values needs a period of at
  least 1 and prices \<open>x\<close> with \<open>|x| * (period + 1) \<le> 10^307\<close>: then the two Wilder averages
  of every index are finite, not negative and at most \<open>2 * 10^307 / period\<close>, so that no
  difference of two prices, no sum of \<open>period\<close> gains or losses and no smoothing step
  \<open>avg * (period - 1) + gain\<close> exceeds \<open>2 * 10^307\<close>, which is inside the range of a
  double; and every defined value is a finite number in [0, 100]. (Without the bound on
  the prices a difference or a sum of the code overflows to an infinity, and the quotient
  of two infinite averages is NaN.)
\<close>

theorem rsi_bounds:
  "length (calculateRSI (map Fin xs) period) = length xs
   \<and> (1 \<le> period \<longrightarrow> (\<forall>x \<in> set xs. \<bar>x\<bar> * (real period + 1) \<le> 10 ^ 307) \<longrightarrow>
        (\<forall>i < length xs. \<forall>st. rsiAverages (map Fin xs) period ! i = Some st
            \<longrightarrow> (\<exists>g l. st = (Fin g, Fin l) \<and> 0 \<le> g \<and> g * real period \<le> 2 * 10 ^ 307
                        \<and> 0 \<le> l \<and> l * real period \<le> 2 * 10 ^ 307))
        \<and> (\<forall>i < length xs. \<forall>v. calculateRSI (map Fin xs) period ! i = Some v
            \<longrightarrow> (\<exists>r. v = Fin r \<and> 0 \<le> r \<and> r \<le> 100)))
   \<and> (\<forall>i < length xs. (calculateRSI (map Fin xs) period ! i \<noteq> None) = (period \<le> i))
   \<and> (\<forall>i < length xs. \<forall>g. rsiAverages (map Fin xs) period ! i = Some (g, Fin 0)
            \<longrightarrow> calculateRSI (map Fin xs) period ! i = Some (Fin 100))
   \<and> calculateRSI (map Fin [1, 2, 1, 2]) 2 = [None, None, Some (Fin 50), Some (Fin 75)]
   \<and> calculateRSI (map Fin [1, 2, 3, 4]) 2 = [None, None, Some (Fin 100), Some (Fin 100)]"
proof (intro conjI impI allI)
  show "length (calculateRSI (map Fin xs) period) = length xs" by simp
next
  fix i st
  assume p: "1 \<le> period" and b: "\<forall>x \<in> set xs. \<bar>x\<bar> * (real period + 1) \<le> 10 ^ 307"
    and i: "i < length xs" and st: "rsiAverages (map Fin xs) period ! i = Some st"
  define B :: real where "B = 10 ^ 307 / (real period + 1)"
  have B: "\<forall>x \<in> set xs. \<bar>x\<bar> \<le> B"
    using b by (simp add: B_def pos_le_divide_eq)
  from p have p0: "0 < period" by simp
  from rsiAverages_bounded [OF p0 i st B] obtain g l where
    gl: "st = (Fin g, Fin l)" "0 \<le> g" "g \<le> 2 * B" "0 \<le> l" "l \<le> 2 * B" by blast
  have "2 * B * real period \<le> 2 * 10 ^ 307"
    by (simp add: B_def pos_divide_le_eq)
  moreover have "g * real period \<le> 2 * B * real period" "l * real period \<le> 2 * B * real period"
    using gl(3,5) by (simp_all add: mult_right_mono)
  ultimately have "g * real period \<le> 2 * 10 ^ 307" "l * real period \<le> 2 * 10 ^ 307"
    by linarith+
  then show "\<exists>g l. st = (Fin g, Fin l) \<and> 0 \<le> g \<and> g * real period \<le> 2 * 10 ^ 307
                        \<and> 0 \<le> l \<and> l * real period \<le> 2 * 10 ^ 307"
    using gl(1,2,4) by blast
next
  fix i v
  assume p: "1 \<le> period" and b: "\<forall>x \<in> set xs. \<bar>x\<bar> * (real period + 1) \<le> 10 ^ 307"
    and i: "i < length xs" and v: "calculateRSI (map Fin xs) period ! i = Some v"
  from v i obtain st where st: "rsiAverages (map Fin xs) period ! i = Some st" "v = rsiOf st"
    by (auto simp: calculateRSI_def)
  define B :: real where "B = 10 ^ 307 / (real period + 1)"
  have B: "\<forall>x \<in> set xs. \<bar>x\<bar> \<le> B"
    using b by (simp add: B_def pos_le_divide_eq)
  from p have "0 < period" by simp
  from rsiAverages_bounded [OF this i st(1) B] obtain g l where
    "st = (Fin g, Fin l)" "0 \<le> g" "0 \<le> l" by blast
  then show "\<exists>r. v = Fin r \<and> 0 \<le> r \<and> r \<le> 100"
    using rsiOf_bounds [of g l] st(2) by simp
next
  fix i assume i: "i < length xs"
  then have "(calculateRSI (map Fin xs) period ! i = None)
             = (rsiAverages (map Fin xs) period ! i = None)"
    by (simp add: calculateRSI_def)
  also have "\<dots> = (i < period)" using i by (simp add: rsiAverages_None_iff)
  finally show "(calculateRSI (map Fin xs) period ! i \<noteq> None) = (period \<le> i)" by auto
next
  fix i g
  assume "i < length xs" and "rsiAverages (map Fin xs) period ! i = Some (g, Fin 0)"
  then show "calculateRSI (map Fin xs) period ! i = Some (Fin 100)"
    by (simp add: calculateRSI_def rsiOf_def jeq_def)
next
  show "calculateRSI (map Fin [1, 2, 1, 2]) 2 = [None, None, Some (Fin 50), Some (Fin 75)]"
    by code_simp
next
  show "calculateRSI (map Fin [1, 2, 3, 4]) 2 = [None, None, Some (Fin 100), Some (Fin 100)]"
    by code_simp
qed

theorem rsi_bounds_witness:
  "(1::nat) \<le> 2
   \<and> list_all (\<lambda>x. \<bar>x\<bar> * (real (2::nat) + 1) \<le> 10 ^ 307) [1, 2, 1, 2 :: real]
   \<and> calculateRSI (map Fin [1, 2, 1, 2]) 2 = [None, None, Some (Fin 50), Some (Fin 75)]
   \<and> (\<exists>r. calculateRSI (map Fin [1, 2, 1, 2]) 2 ! 3 = Some (Fin r) \<and> 0 \<le> r \<and> r \<le> 100)
   \<and> length (calculateRSI (map Fin [1, 2, 1, 2]) 2) = length [1, 2, 1, 2 :: real]
   \<and> rsiAverages (map Fin [1, 2, 3, 4]) 2 ! 3 = Some (Fin 1, Fin 0)
   \<and> calculateRSI (map Fin [1, 2, 3, 4]) 2 ! 3 = Some (Fin 100)"
proof -
  have e: "calculateRSI (map Fin [1, 2, 1, 2]) 2 = [None, None, Some (Fin 50), Some (Fin 75)]"
    by code_simp
  have a: "rsiAverages (map Fin [1, 2, 3, 4]) 2 ! 3 = Some (Fin 1, Fin 0)"
    by code_simp
  have b: "(3::nat) < length [1, 2, 3, 4 :: real]" by simp
  have h1: "(1::nat) \<le> 2" by simp
  have h2: "\<forall>x \<in> set [1, 2, 1, 2 :: real]. \<bar>x\<bar> * (real (2::nat) + 1) \<le> 10 ^ 307" by simp
  have h2': "list_all (\<lambda>x. \<bar>x\<bar> * (real (2::nat) + 1) \<le> 10 ^ 307) [1, 2, 1, 2 :: real]"
    using h2 by (simp only: list_all_iff)
  have b': "(3::nat) < length [1, 2, 1, 2 :: real]" by simp
  have v: "calculateRSI (map Fin [1, 2, 1, 2]) 2 ! 3 = Some (Fin 75)"
    by code_simp
  from rsi_bounds [of "[1, 2, 3, 4]" 2] b a
  have c: "calculateRSI (map Fin [1, 2, 3, 4]) 2 ! 3 = Some (Fin 100)" by blast
  from rsi_bounds [of "[1, 2, 1, 2]" 2]
  have d: "length (calculateRSI (map Fin [1, 2, 1, 2]) 2) = length [1, 2, 1, 2 :: real]" by blast
  from rsi_bounds [of "[1, 2, 1, 2]" 2] h1 h2 b' v
  have r: "\<exists>r. Fin 75 = Fin r \<and> 0 \<le> r \<and> r \<le> 100" by blast
  then have r': "\<exists>r. calculateRSI (map Fin [1, 2, 1, 2]) 2 ! 3 = Some (Fin r) \<and> 0 \<le> r \<and> r \<le> 100"
    using v by simp
  show ?thesis using h1 h2' e r' d a c by blast
qed

subsection \<open>Ordering of the risk levels\<close>












lemma realOrElse_Fin: "\<exists>r. realOrElse a (Fin d) = Fin r"
  by (cases a) (auto simp: realOrElse_def orElse_def)








subsection \<open>The balance invariant\<close>

lemma isFin_iff: "isFin x = (\<exists>a. x = Fin a)"
  by (cases x) simp_all

lemma Fin_realPart: "isFin x \<Longrightarrow> Fin (realPart x) = x"
  by (cases x) simp_all

lemma cost_fold:
  assumes "list_all (\<lambda>kp. finPos (snd kp)) xs"
  shows "foldl (\<lambda>sm pos. sm + (quantity pos * avgCost pos)) (Fin a) (map snd xs)
         = Fin (a + sum_list (map (\<lambda>kp. costOf (snd kp)) xs))"
  using assms
proof (induction xs arbitrary: a)
  case Nil
  then show ?case by simp
next
  case (Cons kp xs)
  then obtain q c where "quantity (snd kp) = Fin q" "avgCost (snd kp) = Fin c"
    by (auto simp: finPos_def isFin_iff)
  then show ?case using Cons by (simp add: costOf_def algebra_simps)
qed

lemma openPositionsCost_Fin:
  assumes "list_all (\<lambda>kp. finPos (snd kp)) (positions p)"
  shows "openPositionsCost p = Fin (sum_list (map (\<lambda>kp. costOf (snd kp)) (positions p)))"
  using cost_fold [OF assms, of 0] by (simp add: openPositionsCost_def)

lemma cost_update:
  assumes "distinct (map fst xs)" and "map_of xs k = Some pos"
  shows "sum_list (map (\<lambda>kp. costOf (snd kp)) (AList.update k pos' xs))
         = sum_list (map (\<lambda>kp. costOf (snd kp)) xs) - costOf pos + costOf pos'"
  using assms by (induction xs) (auto split: if_splits)

lemma cost_delete:
  assumes "distinct (map fst xs)" and "map_of xs k = Some pos"
  shows "sum_list (map (\<lambda>kp. costOf (snd kp)) (AList.delete k xs))
         = sum_list (map (\<lambda>kp. costOf (snd kp)) xs) - costOf pos"
  using assms by (induction xs) (auto split: if_splits simp: delete_id image_iff)

lemma finPos_update:
  assumes "list_all (\<lambda>kp. finPos (snd kp)) xs" and "finPos pos'"
  shows "list_all (\<lambda>kp. finPos (snd kp)) (AList.update k pos' xs)"
  using assms by (induction xs) auto

lemma finPos_delete:
  assumes "list_all (\<lambda>kp. finPos (snd kp)) xs"
  shows "list_all (\<lambda>kp. finPos (snd kp)) (AList.delete k xs)"
  using assms by (induction xs) auto

lemma finPos_lookup:
  assumes "list_all (\<lambda>kp. finPos (snd kp)) xs" and "map_of xs k = Some pos"
  shows "finPos pos"
  using assms by (induction xs) (auto split: if_splits)

lemma closedPnl_open:
  "status t = OpenTrade \<Longrightarrow> closedTradesPnl (p\<lparr>balance := b, positions := ps, ptTrades := ptTrades p @ [t]\<rparr>)
     = closedTradesPnl p"
  by (simp add: closedTradesPnl_def)

lemma closedPnl_closed:
  "status t = ClosedTrade \<Longrightarrow> closedTradesPnl (p\<lparr>balance := b, positions := ps, ptTrades := ptTrades p @ [t]\<rparr>)
     = closedTradesPnl p + orElse (pnl t) (Fin 0)"
  by (simp add: closedTradesPnl_def)

lemma reconciledD:
  assumes "reconciled p"
  shows "\<exists>b i c. balance p = Fin b \<and> initialBalance p = Fin i \<and> closedTradesPnl p = Fin c
           \<and> b = i + c - sum_list (map (\<lambda>kp. costOf (snd kp)) (positions p))"
proof -
  from assms obtain b i c where v: "balance p = Fin b" "initialBalance p = Fin i"
    "closedTradesPnl p = Fin c"
    by (auto simp: reconciled_def isFin_iff)
  from assms have fin: "list_all (\<lambda>kp. finPos (snd kp)) (positions p)"
    and eq: "balance p = expectedBalance p"
    by (simp_all add: reconciled_def)
  from eq have "b = i + c - sum_list (map (\<lambda>kp. costOf (snd kp)) (positions p))"
    by (simp add: expectedBalance_def v openPositionsCost_Fin [OF fin])
  with v show ?thesis by blast
qed

lemma reconciledI:
  assumes "distinct (map fst (positions p))"
    and "list_all (\<lambda>kp. finPos (snd kp)) (positions p)"
    and "balance p = Fin b" and "initialBalance p = Fin i" and "closedTradesPnl p = Fin c"
    and "b = i + c - sum_list (map (\<lambda>kp. costOf (snd kp)) (positions p))"
  shows "reconciled p"
  using assms
  by (simp add: reconciled_def expectedBalance_def openPositionsCost_Fin)

lemma paperBuy_reconciled:
  assumes st: "portfolio st = Some p" and rec: "reconciled p" and tk: "ticker \<noteq> Some 0"
  shows "\<exists>p'. portfolio (snd (paperBuy st symb amountUSD reason conf ticker)) = Some p'
           \<and> reconciled p' \<and> initialBalance p' = initialBalance p"
proof (cases "map_of (positions p) symb = None \<and> \<not> balance p < Fin amountUSD \<and> ticker \<noteq> None")
  case False
  then have "snd (paperBuy st symb amountUSD reason conf ticker) = st"
    using st by (auto simp: paperBuy_def)
  then show ?thesis using st rec by simp
next
  case True
  then obtain price where price: "ticker = Some price" "price \<noteq> 0" using tk by auto
  from True have fresh: "map_of (positions p) symb = None" and enough: "\<not> balance p < Fin amountUSD"
    by simp_all
  from reconciledD [OF rec] obtain b i c where v: "balance p = Fin b" "initialBalance p = Fin i"
    "closedTradesPnl p = Fin c"
    "b = i + c - sum_list (map (\<lambda>kp. costOf (snd kp)) (positions p))" by blast
  from rec have dist: "distinct (map fst (positions p))"
    and fin: "list_all (\<lambda>kp. finPos (snd kp)) (positions p)"
    by (simp_all add: reconciled_def)
  let ?pos = "\<lparr>quantity = Fin amountUSD / Fin price, avgCost = Fin price,
               posStopLoss = None, posTakeProfit = None\<rparr>"
  let ?t = "\<lparr>ptSymbol = symb, ptType = BuyTrade, ptQuantity = Fin amountUSD / Fin price,
             ptEntryPrice = Fin price, ptExitPrice = None, pnl = None,
             pnlPercent = None, status = OpenTrade, ptReason = reason,
             ptConfidence = Fin conf\<rparr>"
  let ?p' = "p\<lparr>balance := balance p - Fin amountUSD,
               positions := positions p @ [(symb, ?pos)],
               ptTrades := ptTrades p @ [?t]\<rparr>"
  have res: "portfolio (snd (paperBuy st symb amountUSD reason conf ticker)) = Some ?p'"
    unfolding price(1) paperBuy_fresh [OF st fresh enough] by simp
  have notin: "symb \<notin> fst ` set (positions p)"
    using fresh by (simp add: map_of_eq_None_iff)
  have c: "costOf ?pos = amountUSD"
    using price(2) by (simp add: costOf_def)
  have fp: "finPos ?pos" using price(2) by (simp add: finPos_def)
  have "reconciled ?p'"
  proof (rule reconciledI)
    show "distinct (map fst (positions ?p'))" using dist notin by simp
    show "list_all (\<lambda>kp. finPos (snd kp)) (positions ?p')" using fin fp by simp
    show "balance ?p' = Fin (b - amountUSD)" by (simp add: v(1))
    show "initialBalance ?p' = Fin i" by (simp add: v(2))
    show "closedTradesPnl ?p' = Fin c"
      using closedPnl_open [of ?t p] v(3) by simp
    show "b - amountUSD = i + c - sum_list (map (\<lambda>kp. costOf (snd kp)) (positions ?p'))"
      using v(4) c by simp
  qed
  then show ?thesis using res by simp
qed

lemma paperSell_reconciled:
  assumes st: "portfolio st = Some p" and rec: "reconciled p"
    and clean: "opIsClean st (SellOp symb qtyArg reason ticker)"
  shows "\<exists>p'. portfolio (snd (paperSell st symb qtyArg reason ticker)) = Some p'
           \<and> reconciled p' \<and> initialBalance p' = initialBalance p"
proof (cases "map_of (positions p) symb")
  case None
  then have "snd (paperSell st symb qtyArg reason ticker) = st"
    using st by (simp add: paperSell_def)
  then show ?thesis using st rec by simp
next
  case (Some pos)
  from reconciledD [OF rec] obtain b i c where v: "balance p = Fin b" "initialBalance p = Fin i"
    "closedTradesPnl p = Fin c"
    "b = i + c - sum_list (map (\<lambda>kp. costOf (snd kp)) (positions p))" by blast
  from rec have dist: "distinct (map fst (positions p))"
    and fin: "list_all (\<lambda>kp. finPos (snd kp)) (positions p)"
    by (simp_all add: reconciled_def)
  from finPos_lookup [OF fin Some] obtain q a where qa: "quantity pos = Fin q" "avgCost pos = Fin a"
    by (auto simp: finPos_def isFin_iff)
  obtain s where s: "realOrElse qtyArg (Fin q) = Fin s"
    using realOrElse_Fin [of qtyArg q] by auto
  have cpos: "costOf pos = q * a" by (simp add: costOf_def qa)
  show ?thesis
  proof (cases "q < s \<or> ticker = None")
    case True
    then have "snd (paperSell st symb qtyArg reason ticker) = st"
      using st Some by (auto simp: paperSell_def Let_def qa s)
    then show ?thesis using st rec by simp
  next
    case False
    then obtain price where price: "ticker = Some price" and le: "\<not> q < s" by auto
    let ?t = "\<lparr>ptSymbol = symb, ptType = SellTrade, ptQuantity = Fin s,
               ptEntryPrice = Fin a, ptExitPrice = Some (Fin price),
               pnl = Some (Fin (s * price - s * a)),
               pnlPercent = Some ((Fin (s * price - s * a) / Fin (s * a)) * Fin 100),
               status = ClosedTrade, ptReason = reason, ptConfidence = Fin 0\<rparr>"
    let ?ps = "(if 0.000001 < q - s
                then AList.update symb (pos\<lparr>quantity := Fin (q - s)\<rparr>) (positions p)
                else AList.delete symb (positions p))"
    let ?p' = "p\<lparr>balance := Fin (b + s * price), positions := ?ps,
                 ptTrades := ptTrades p @ [?t]\<rparr>"
    have res: "portfolio (snd (paperSell st symb qtyArg reason ticker)) = Some ?p'"
      using st Some le
      by (simp add: paperSell_def Let_def qa s price v(1) savePaperPortfolio_def)
    have dust: "\<not> 0.000001 < q - s \<Longrightarrow> q = s"
      using clean le st Some by (simp add: qa s Let_def)
    have cost: "sum_list (map (\<lambda>kp. costOf (snd kp)) ?ps)
                = sum_list (map (\<lambda>kp. costOf (snd kp)) (positions p)) - s * a"
    proof (cases "0.000001 < q - s")
      case True
      have "costOf (pos\<lparr>quantity := Fin (q - s)\<rparr>) = (q - s) * a"
        by (simp add: costOf_def qa)
      then show ?thesis
        using True cost_update [OF dist Some, of "pos\<lparr>quantity := Fin (q - s)\<rparr>"] cpos
        by (simp add: algebra_simps)
    next
      case False
      then show ?thesis using dust cost_delete [OF dist Some] cpos by simp
    qed
    have "reconciled ?p'"
    proof (rule reconciledI)
      show "distinct (map fst (positions ?p'))"
        using dist by (simp add: distinct_update distinct_delete)
      have "finPos (pos\<lparr>quantity := Fin (q - s)\<rparr>)" by (simp add: finPos_def qa)
      then show "list_all (\<lambda>kp. finPos (snd kp)) (positions ?p')"
        using fin by (simp add: finPos_update finPos_delete)
      show "balance ?p' = Fin (b + s * price)" by simp
      show "initialBalance ?p' = Fin i" by (simp add: v(2))
      show "closedTradesPnl ?p' = Fin (c + (s * price - s * a))"
        using closedPnl_closed [of ?t p] v(3) by (simp add: orElse_def truthy_def)
      show "b + s * price = i + (c + (s * price - s * a))
              - sum_list (map (\<lambda>kp. costOf (snd kp)) (positions ?p'))"
        using v(4) cost by simp
    qed
    then show ?thesis using res by simp
  qed
qed

lemma runOps_reconciled:
  assumes "portfolio st = Some p" and "reconciled p" and "cleanRun st ops"
  shows "\<exists>p'. portfolio (runOps st ops) = Some p' \<and> reconciled p'
           \<and> initialBalance p' = initialBalance p"
  using assms
proof (induction ops arbitrary: st p)
  case Nil
  then show ?case by simp
next
  case (Cons op ops)
  from Cons.prems(3) have c1: "opIsClean st op" and c2: "cleanRun (snd (applyOp st op)) ops"
    by simp_all
  have "\<exists>p1. portfolio (snd (applyOp st op)) = Some p1 \<and> reconciled p1
           \<and> initialBalance p1 = initialBalance p"
  proof (cases op)
    case (BuyOp symb amountUSD reason conf ticker)
    then show ?thesis
      using paperBuy_reconciled [OF Cons.prems(1,2)] c1 by simp
  next
    case (SellOp symb qtyArg reason ticker)
    then show ?thesis
      using paperSell_reconciled [OF Cons.prems(1,2)] c1 by simp
  qed
  then obtain p1 where p1: "portfolio (snd (applyOp st op)) = Some p1" "reconciled p1"
    "initialBalance p1 = initialBalance p" by blast
  from Cons.IH [OF p1(1,2) c2] show ?case using p1(3) by simp
qed

lemma fresh_reconciled:
  "reconciled \<lparr>balance = Fin init, initialBalance = Fin init, positions = [], ptTrades = []\<rparr>"
  by (simp add: reconciled_def expectedBalance_def closedTradesPnl_def openPositionsCost_def)

lemma portfolio_initialize:
  "portfolio (initializePaperPortfolio st0 init)
     = Some \<lparr>balance = Fin init, initialBalance = Fin init, positions = [], ptTrades = []\<rparr>"
  by (simp add: initializePaperPortfolio_def savePaperPortfolio_def)

lemma repair_result:
  "portfolio st = Some p \<Longrightarrow>
     portfolio (repairPortfolioBalance st)
       = Some (if Fin 1 < \<bar>balance p - expectedBalance p\<bar> then p\<lparr>balance := expectedBalance p\<rparr>
               else p)"
  by (simp add: repairPortfolioBalance_def savePaperPortfolio_def)

text \<open>
  Claim C5 says that the balance equals the expected balance, within tolerance, after any
  sequence of successful buys and sells. A sell that leaves a remainder of at most 0.000001
  units deletes the position without crediting the remainder: after buying 2000 USD at
  2000000 (0.001 units) and selling 0.000999 units at the same price, both successfully,
  the balance is 9998 while the expected balance is 10000, more than the repair threshold
  of 1 away.
\<close>

theorem dust_sell_counterexample:
  "map_option balance
     (portfolio (runOps (initializePaperPortfolio emptyState 10000)
        [BuyOp ''BTCUSDT'' 2000 ''buy'' 100 (Some 2000000),
         SellOp ''BTCUSDT'' (Some 0.000999) ''sell'' (Some 2000000)])) = Some (Fin 9998)
   \<and> map_option expectedBalance
     (portfolio (runOps (initializePaperPortfolio emptyState 10000)
        [BuyOp ''BTCUSDT'' 2000 ''buy'' 100 (Some 2000000),
         SellOp ''BTCUSDT'' (Some 0.000999) ''sell'' (Some 2000000)])) = Some (Fin 10000)
   \<and> map_option (\<lambda>p. map status (ptTrades p))
     (portfolio (runOps (initializePaperPortfolio emptyState 10000)
        [BuyOp ''BTCUSDT'' 2000 ''buy'' 100 (Some 2000000),
         SellOp ''BTCUSDT'' (Some 0.000999) ''sell'' (Some 2000000)]))
       = Some [OpenTrade, ClosedTrade]
   \<and> Fin 1 < \<bar>Fin 9998 - Fin 10000\<bar>"
  by code_simp

text \<open>
  Claim C5 as the code has it. After any clean sequence of buy and sell calls on a freshly
  initialized portfolio (successful or not), the balance is finite and equals exactly
  initial balance plus the pnl of the closed trades minus the cost basis of the open
  positions; the equality is one of exact arithmetic, the doubles of the code keep it up
  to rounding. On load of a stored portfolio of finite numbers, and in the repair itself,
  a balance further than 1 from that expected value is overwritten with it, and a balance
  within 1 is kept. Buying 1000 USD at 50000 and selling the whole position at 60000 on a
  portfolio of 10000 leaves no position, a closed trade with pnl 200 and the balance 10200.
\<close>

theorem portfolio_invariant:
  "(cleanRun (initializePaperPortfolio st0 init) ops \<longrightarrow>
      (case portfolio (runOps (initializePaperPortfolio st0 init) ops) of
         None \<Rightarrow> False
       | Some p \<Rightarrow> balance p = expectedBalance p \<and> (\<exists>b. balance p = Fin b)
                   \<and> initialBalance p = Fin init))
   \<and> (stored st = Some p \<longrightarrow> finitePortfolio p \<longrightarrow>
        fst (loadPaperPortfolio st)
          = Some (if Fin 1 < \<bar>balance p - expectedBalance p\<bar>
                  then p\<lparr>balance := expectedBalance p\<rparr> else p))
   \<and> (portfolio st = Some p \<longrightarrow>
        portfolio (repairPortfolioBalance st)
          = Some (if Fin 1 < \<bar>balance p - expectedBalance p\<bar>
                  then p\<lparr>balance := expectedBalance p\<rparr> else p))
   \<and> map_option (\<lambda>p. (balance p, map fst (positions p), map pnl (ptTrades p)))
        (portfolio (runOps (initializePaperPortfolio emptyState 10000)
           [BuyOp ''BTCUSDT'' 1000 ''buy'' 100 (Some 50000),
            SellOp ''BTCUSDT'' None ''sell'' (Some 60000)]))
       = Some (Fin 10200, [], [None, Some (Fin 200)])"
proof (intro conjI impI)
  assume clean: "cleanRun (initializePaperPortfolio st0 init) ops"
  from runOps_reconciled [OF portfolio_initialize fresh_reconciled clean]
  obtain p' where p': "portfolio (runOps (initializePaperPortfolio st0 init) ops) = Some p'"
    "reconciled p'" "initialBalance p' = Fin init"
    by auto
  from p'(2) have "balance p' = expectedBalance p'"
    by (simp add: reconciled_def)
  moreover from reconciledD [OF p'(2)] have "\<exists>b. balance p' = Fin b" by blast
  ultimately show "case portfolio (runOps (initializePaperPortfolio st0 init) ops) of
         None \<Rightarrow> False
       | Some p \<Rightarrow> balance p = expectedBalance p \<and> (\<exists>b. balance p = Fin b)
                   \<and> initialBalance p = Fin init"
    using p'(1,3) by simp
next
  assume "stored st = Some p"
  then show "fst (loadPaperPortfolio st)
          = Some (if Fin 1 < \<bar>balance p - expectedBalance p\<bar>
                  then p\<lparr>balance := expectedBalance p\<rparr> else p)"
    by (simp add: loadPaperPortfolio_def Let_def repair_result)
next
  assume "portfolio st = Some p"
  then show "portfolio (repairPortfolioBalance st)
          = Some (if Fin 1 < \<bar>balance p - expectedBalance p\<bar>
                  then p\<lparr>balance := expectedBalance p\<rparr> else p)"
    by (rule repair_result)
next
  show "map_option (\<lambda>p. (balance p, map fst (positions p), map pnl (ptTrades p)))
        (portfolio (runOps (initializePaperPortfolio emptyState 10000)
           [BuyOp ''BTCUSDT'' 1000 ''buy'' 100 (Some 50000),
            SellOp ''BTCUSDT'' None ''sell'' (Some 60000)]))
       = Some (Fin 10200, [], [None, Some (Fin 200)])"
    by code_simp
qed

theorem portfolio_invariant_witness:
  "cleanRun (initializePaperPortfolio emptyState 10000)
     [BuyOp ''BTCUSDT'' 1000 ''buy'' 100 (Some 50000), SellOp ''BTCUSDT'' None ''sell'' (Some 60000)]
   \<and> map_option balance
       (portfolio (runOps (initializePaperPortfolio emptyState 10000)
          [BuyOp ''BTCUSDT'' 1000 ''buy'' 100 (Some 50000),
           SellOp ''BTCUSDT'' None ''sell'' (Some 60000)])) = Some (Fin 10200)
   \<and> map_option expectedBalance
       (portfolio (runOps (initializePaperPortfolio emptyState 10000)
          [BuyOp ''BTCUSDT'' 1000 ''buy'' 100 (Some 50000),
           SellOp ''BTCUSDT'' None ''sell'' (Some 60000)])) = Some (Fin 10200)
   \<and> stored \<lparr>portfolio = None,
              stored = Some \<lparr>balance = Fin 5000, initialBalance = Fin 10000, positions = [],
                              ptTrades = []\<rparr>\<rparr>
       = Some \<lparr>balance = Fin 5000, initialBalance = Fin 10000, positions = [], ptTrades = []\<rparr>
   \<and> finitePortfolio
         \<lparr>balance = Fin 5000, initialBalance = Fin 10000, positions = [], ptTrades = []\<rparr>
   \<and> fst (loadPaperPortfolio \<lparr>portfolio = None,
              stored = Some \<lparr>balance = Fin 5000, initialBalance = Fin 10000, positions = [],
                              ptTrades = []\<rparr>\<rparr>)
       = Some \<lparr>balance = Fin 10000, initialBalance = Fin 10000, positions = [], ptTrades = []\<rparr>"
proof -
  let ?ops = "[BuyOp ''BTCUSDT'' 1000 ''buy'' 100 (Some 50000),
               SellOp ''BTCUSDT'' None ''sell'' (Some 60000)]"
  let ?bad = "\<lparr>balance = Fin 5000, initialBalance = Fin 10000, positions = [], ptTrades = []\<rparr>"
  let ?st = "\<lparr>portfolio = None, stored = Some ?bad\<rparr>"
  have c: "cleanRun (initializePaperPortfolio emptyState 10000) ?ops" by code_simp
  have b: "map_option balance
       (portfolio (runOps (initializePaperPortfolio emptyState 10000) ?ops)) = Some (Fin 10200)"
    by code_simp
  have s: "stored ?st = Some ?bad" by simp
  have f: "finitePortfolio ?bad" by (simp add: finitePortfolio_def)
  have e: "expectedBalance ?bad = Fin 10000"
    by (simp add: expectedBalance_def closedTradesPnl_def openPositionsCost_def)
  note inv = portfolio_invariant [of emptyState 10000 ?ops ?st ?bad]
  from inv c have "case portfolio (runOps (initializePaperPortfolio emptyState 10000) ?ops) of
         None \<Rightarrow> False
       | Some p \<Rightarrow> balance p = expectedBalance p \<and> (\<exists>b. balance p = Fin b)
                   \<and> initialBalance p = Fin 10000"
    by blast
  with b have x: "map_option expectedBalance
       (portfolio (runOps (initializePaperPortfolio emptyState 10000) ?ops)) = Some (Fin 10200)"
    by (auto split: option.splits)
  from inv s f have "fst (loadPaperPortfolio ?st)
          = Some (if Fin 1 < \<bar>balance ?bad - expectedBalance ?bad\<bar>
                  then ?bad\<lparr>balance := expectedBalance ?bad\<rparr> else ?bad)"
    by blast
  then have l: "fst (loadPaperPortfolio ?st)
       = Some \<lparr>balance = Fin 10000, initialBalance = Fin 10000, positions = [], ptTrades = []\<rparr>"
    by (simp add: e)
  show ?thesis using c b x s f l by (intro conjI)
qed

end
